theory Spec2Isabelle
  imports Complex_Main "HOL-Library.AList"
begin

chapter \<open>The Oqoqo demo server: review orchestration, gap fixes and the admin guard\<close>

text \<open>
  A shallow embedding of \<^verbatim>\<open>src/index.ts\<close>, \<^verbatim>\<open>src/gaps.ts\<close> and the mappings module
  (\<^verbatim>\<open>./mappings\<close>, which holds \<^verbatim>\<open>INITIAL_DOCS\<close>, \<^verbatim>\<open>UPDATE_MAPPINGS\<close> and the demo code):
  the admin guard, the review-mode orchestrator \<^verbatim>\<open>handleMediumAccess\<close>, the routes
  \<^verbatim>\<open>GET /reviews\<close>, \<^verbatim>\<open>POST /reviews/:id/approve\<close>, \<^verbatim>\<open>POST /reset\<close> and \<^verbatim>\<open>POST /fix-gaps\<close>, and
  \<^verbatim>\<open>applyGapFix\<close>, with the helpers they call.

  \<^item> A JavaScript string is a \<^typ>\<open>string\<close>. The static texts are ASCII except for a box
    drawing in one initial document, which is written as its UTF-8 bytes (the bytes
    \<^verbatim>\<open>Buffer.from(content)\<close> sends).
  \<^item> An object used as a dictionary (\<^verbatim>\<open>Record<string, ...>\<close>) is an association list in
    insertion order, which is the order \<^verbatim>\<open>Object.entries\<close> enumerates the path-like keys
    of this program; assigning to a key that is present keeps its position.
  \<^item> The server's module-level variables are one record, passed through every handler.
    A broadcast and a call of the hosting platform are appended to logs in that record.
  \<^item> The hosting platform (Octokit) and the clock are outside the program: each reply is a
    function of the whole history of calls, and a rejected promise is \<open>Inl message\<close>.
    Theorems hold for every such platform unless they say otherwise.
\<close>

section \<open>Strings\<close>

text \<open>Decimal digits of a number, as a template literal prints \<^verbatim>\<open>${n}\<close>.\<close>

fun show_nat :: "nat \<Rightarrow> string" where
  "show_nat n =
     (if n < 10 then [char_of (48 + n)]
      else show_nat (n div 10) @ [char_of (48 + n mod 10)])"

declare show_nat.simps [simp del]

text \<open>\<^verbatim>\<open>xs.join(sep)\<close>.\<close>

fun join :: "string list \<Rightarrow> string \<Rightarrow> string" where
  "join [] sep = []"
| "join [x] sep = x"
| "join (x # y # ys) sep = x @ sep @ join (y # ys) sep"

text \<open>\<^verbatim>\<open>s.startsWith(p)\<close> and \<^verbatim>\<open>s.indexOf(p)\<close>, the latter \<open>None\<close> for \<^verbatim>\<open>-1\<close>.\<close>

fun startsWith :: "string \<Rightarrow> string \<Rightarrow> bool" where
  "startsWith s [] = True"
| "startsWith [] (p # ps) = False"
| "startsWith (c # cs) (p # ps) = (c = p \<and> startsWith cs ps)"

fun indexOf :: "string \<Rightarrow> string \<Rightarrow> nat option" where
  "indexOf [] p = (if p = [] then Some 0 else None)"
| "indexOf (c # cs) p =
     (if startsWith (c # cs) p then Some 0 else map_option Suc (indexOf cs p))"

text \<open>
  \<^verbatim>\<open>GetSubstitution\<close> of ECMAScript for a string pattern: there are no captures, so of the
  dollar patterns only \<^verbatim>\<open>$$\<close>, \<^verbatim>\<open>$&\<close>, \<^verbatim>\<open>$`\<close> and \<^verbatim>\<open>$'\<close> are replaced; \<^verbatim>\<open>$1\<close>, \<^verbatim>\<open>$<\<close> and a
  dollar before any other character stand for themselves.
\<close>

fun GetSubstitution :: "string \<Rightarrow> string \<Rightarrow> string \<Rightarrow> string \<Rightarrow> string" where
  "GetSubstitution matched preceding following [] = []"
| "GetSubstitution matched preceding following [c] = [c]"
| "GetSubstitution matched preceding following (c # d # rest) =
     (if c = CHR 0x24 \<and> d = CHR 0x24 then
        CHR 0x24 # GetSubstitution matched preceding following rest
      else if c = CHR 0x24 \<and> d = CHR 0x26 then
        matched @ GetSubstitution matched preceding following rest
      else if c = CHR 0x24 \<and> d = CHR 0x60 then
        preceding @ GetSubstitution matched preceding following rest
      else if c = CHR 0x24 \<and> d = CHR 0x27 then
        following @ GetSubstitution matched preceding following rest
      else c # GetSubstitution matched preceding following (d # rest))"

text \<open>The text holds one of the four patterns that \<open>GetSubstitution\<close> replaces.\<close>

fun dollar_pattern :: "string \<Rightarrow> bool" where
  "dollar_pattern (c # d # rest) =
     ((c = CHR 0x24 \<and> (d = CHR 0x24 \<or> d = CHR 0x26 \<or> d = CHR 0x60 \<or> d = CHR 0x27))
      \<or> dollar_pattern (d # rest))"
| "dollar_pattern [c] = False"
| "dollar_pattern [] = False"

text \<open>
  \<^verbatim>\<open>s.replace(searchValue, replaceValue)\<close> with two strings: the first occurrence of
  \<^verbatim>\<open>searchValue\<close> is replaced by the substitution of \<^verbatim>\<open>replaceValue\<close>; without an occurrence
  the string is returned as it is.
\<close>

definition replace :: "string \<Rightarrow> string \<Rightarrow> string \<Rightarrow> string" where
  "replace s searchValue replaceValue =
     (case indexOf s searchValue of
        None \<Rightarrow> s
      | Some pos \<Rightarrow>
          (let preceding = take pos s;
               following = drop (pos + length searchValue) s
           in preceding @ GetSubstitution searchValue preceding following replaceValue
                @ following))"

text \<open>The replacement the specification describes: the first occurrence of \<open>p\<close> gives way to \<open>r\<close> itself.\<close>

definition replace_first_literal :: "string \<Rightarrow> string \<Rightarrow> string \<Rightarrow> string" where
  "replace_first_literal s p r =
     (case indexOf s p of
        None \<Rightarrow> s
      | Some pos \<Rightarrow> take pos s @ r @ drop (pos + length p) s)"

section \<open>Static data\<close>

subsection \<open>The mappings module\<close>

text \<open>
  The template literals of \<^verbatim>\<open>INITIAL_DOCS\<close>, \<^verbatim>\<open>UPDATE_MAPPINGS\<close> and \<^verbatim>\<open>DEMO_CODE_BEFORE\<close>, one
  source line per line. A backslash is \<open>CHR 0x5C\<close>.
\<close>

definition INITIAL_getting_started :: string where
  \<open>INITIAL_getting_started =
    ''---\<newline>'' @
    ''sidebar_position: 1\<newline>'' @
    ''---\<newline>'' @
    ''\<newline>'' @
    ''# Getting Started\<newline>'' @
    ''\<newline>'' @
    ''Welcome to the Acme API! This guide will help you get up and running quickly.\<newline>'' @
    ''\<newline>'' @
    ''## Base URL\<newline>'' @
    ''\<newline>'' @
    ''All API requests should be made to:\<newline>'' @
    ''\<newline>'' @
    ''```\<newline>'' @
    ''https://api.acme.io/v1\<newline>'' @
    ''```\<newline>'' @
    ''\<newline>'' @
    ''## Authentication\<newline>'' @
    ''\<newline>'' @
    ''Include your API key in the Authorization header:\<newline>'' @
    ''\<newline>'' @
    ''```bash\<newline>'' @
    ''Authorization: Bearer YOUR_API_KEY\<newline>'' @
    ''```\<newline>'' @
    ''\<newline>'' @
    ''You can obtain an API key from your [dashboard](https://dashboard.acme.io/api-keys).\<newline>'' @
    ''\<newline>'' @
    ''## Endpoints\<newline>'' @
    ''\<newline>'' @
    ''### Users\<newline>'' @
    ''\<newline>'' @
    ''Manage user accounts in your application.\<newline>'' @
    ''\<newline>'' @
    ''| Method | Endpoint | Description |\<newline>'' @
    ''|--------|----------|-------------|\<newline>'' @
    ''| GET | `/users` | List all users |\<newline>'' @
    ''| POST | `/users` | Create a new user |\<newline>'' @
    ''| GET | `/users/:id` | Get a user by ID |\<newline>'' @
    ''\<newline>'' @
    ''#### Example: List Users\<newline>'' @
    ''\<newline>'' @
    ''```bash\<newline>'' @
    ''curl -X GET https://api.acme.io/v1/users '' @ [CHR 0x5C] @ ''\<newline>'' @
    ''  -H "Authorization: Bearer YOUR_API_KEY"\<newline>'' @
    ''```\<newline>'' @
    ''\<newline>'' @
    ''Response:\<newline>'' @
    ''\<newline>'' @
    ''```json\<newline>'' @
    ''{\<newline>'' @
    ''  "data": [\<newline>'' @
    ''    {\<newline>'' @
    ''      "id": "usr_123",\<newline>'' @
    ''      "email": "john@example.com",\<newline>'' @
    ''      "name": "John Doe",\<newline>'' @
    ''      "created_at": "2024-01-15T10:30:00Z"\<newline>'' @
    ''    }\<newline>'' @
    ''  ],\<newline>'' @
    ''  "has_more": false\<newline>'' @
    ''}\<newline>'' @
    ''```\<newline>'' @
    ''\<newline>'' @
    ''### Products\<newline>'' @
    ''\<newline>'' @
    ''Manage your product catalog.\<newline>'' @
    ''\<newline>'' @
    ''| Method | Endpoint | Description |\<newline>'' @
    ''|--------|----------|-------------|\<newline>'' @
    ''| GET | `/products` | List all products |\<newline>'' @
    ''| POST | `/products` | Create a new product |\<newline>'' @
    ''| GET | `/products/:id` | Get a product by ID |\<newline>'' @
    ''\<newline>'' @
    ''#### Example: Create Product\<newline>'' @
    ''\<newline>'' @
    ''```bash\<newline>'' @
    ''curl -X POST https://api.acme.io/v1/products '' @ [CHR 0x5C] @ ''\<newline>'' @
    ''  -H "Authorization: Bearer YOUR_API_KEY" '' @ [CHR 0x5C] @ ''\<newline>'' @
    ''  -H "Content-Type: application/json" '' @ [CHR 0x5C] @ ''\<newline>'' @
    ''  -d \'{\<newline>'' @
    ''    "name": "Pro Plan",\<newline>'' @
    ''    "price": 99.00,\<newline>'' @
    ''    "currency": "USD"\<newline>'' @
    ''  }\'\<newline>'' @
    ''```\<newline>'' @
    ''\<newline>'' @
    ''## Next Steps\<newline>'' @
    ''\<newline>'' @
    ''- Read the [Architecture Overview](./architecture) to understand our system\<newline>'' @
    ''- Follow the [How-To Guide](./how-to-guide) for step-by-step tutorials\<newline>''\<close>

definition INITIAL_architecture :: string where
  \<open>INITIAL_architecture =
    ''---\<newline>'' @
    ''sidebar_position: 2\<newline>'' @
    ''---\<newline>'' @
    ''\<newline>'' @
    ''# Architecture Overview\<newline>'' @
    ''\<newline>'' @
    ''The Acme platform is built on a modern microservices architecture designed for scalability and reliability.\<newline>'' @
    ''\<newline>'' @
    ''## System Components\<newline>'' @
    ''\<newline>'' @
    ''```\<newline>'' @
    [CHR 0xE2, CHR 0x94, CHR 0x8C, CHR 0xE2, CHR 0x94, CHR 0x80, CHR 0xE2, CHR 0x94, CHR 0x80, CHR 0xE2, CHR 0x94, CHR 0x80, CHR 0xE2, CHR 0x94, CHR 0x80, CHR 0xE2, CHR 0x94, CHR 0x80, CHR 0xE2, CHR 0x94, CHR 0x80, CHR 0xE2, CHR 0x94, CHR 0x80, CHR 0xE2, CHR 0x94, CHR 0x80, CHR 0xE2, CHR 0x94, CHR 0x80, CHR 0xE2, CHR 0x94, CHR 0x80, CHR 0xE2, CHR 0x94, CHR 0x80, CHR 0xE2, CHR 0x94, CHR 0x80, CHR 0xE2, CHR 0x94, CHR 0x80, CHR 0xE2, CHR 0x94, CHR 0x90] @ ''     '' @ [CHR 0xE2, CHR 0x94, CHR 0x8C, CHR 0xE2, CHR 0x94, CHR 0x80, CHR 0xE2, CHR 0x94, CHR 0x80, CHR 0xE2, CHR 0x94, CHR 0x80, CHR 0xE2, CHR 0x94, CHR 0x80, CHR 0xE2, CHR 0x94, CHR 0x80, CHR 0xE2, CHR 0x94, CHR 0x80, CHR 0xE2, CHR 0x94, CHR 0x80, CHR 0xE2, CHR 0x94, CHR 0x80, CHR 0xE2, CHR 0x94, CHR 0x80, CHR 0xE2, CHR 0x94, CHR 0x80, CHR 0xE2, CHR 0x94, CHR 0x80, CHR 0xE2, CHR 0x94, CHR 0x80, CHR 0xE2, CHR 0x94, CHR 0x80, CHR 0xE2, CHR 0x94, CHR 0x90] @ ''     '' @ [CHR 0xE2, CHR 0x94, CHR 0x8C, CHR 0xE2, CHR 0x94, CHR 0x80, CHR 0xE2, CHR 0x94, CHR 0x80, CHR 0xE2, CHR 0x94, CHR 0x80, CHR 0xE2, CHR 0x94, CHR 0x80, CHR 0xE2, CHR 0x94, CHR 0x80, CHR 0xE2, CHR 0x94, CHR 0x80, CHR 0xE2, CHR 0x94, CHR 0x80, CHR 0xE2, CHR 0x94, CHR 0x80, CHR 0xE2, CHR 0x94, CHR 0x80, CHR 0xE2, CHR 0x94, CHR 0x80, CHR 0xE2, CHR 0x94, CHR 0x80, CHR 0xE2, CHR 0x94, CHR 0x80, CHR 0xE2, CHR 0x94, CHR 0x80, CHR 0xE2, CHR 0x94, CHR 0x90] @ ''\<newline>'' @
    [CHR 0xE2, CHR 0x94, CHR 0x82] @ ''   API       '' @ [CHR 0xE2, CHR 0x94, CHR 0x82] @ ''     '' @ [CHR 0xE2, CHR 0x94, CHR 0x82] @ ''   Auth      '' @ [CHR 0xE2, CHR 0x94, CHR 0x82] @ ''     '' @ [CHR 0xE2, CHR 0x94, CHR 0x82] @ ''   Data      '' @ [CHR 0xE2, CHR 0x94, CHR 0x82] @ ''\<newline>'' @
    [CHR 0xE2, CHR 0x94, CHR 0x82] @ ''   Gateway   '' @ [CHR 0xE2, CHR 0x94, CHR 0x82, CHR 0xE2, CHR 0x94, CHR 0x80, CHR 0xE2, CHR 0x94, CHR 0x80, CHR 0xE2, CHR 0x94, CHR 0x80, CHR 0xE2, CHR 0x94, CHR 0x80, CHR 0xE2, CHR 0x96, CHR 0xB6, CHR 0xE2, CHR 0x94, CHR 0x82] @ ''   Service   '' @ [CHR 0xE2, CHR 0x94, CHR 0x82, CHR 0xE2, CHR 0x94, CHR 0x80, CHR 0xE2, CHR 0x94, CHR 0x80, CHR 0xE2, CHR 0x94, CHR 0x80, CHR 0xE2, CHR 0x94, CHR 0x80, CHR 0xE2, CHR 0x96, CHR 0xB6, CHR 0xE2, CHR 0x94, CHR 0x82] @ ''   Service   '' @ [CHR 0xE2, CHR 0x94, CHR 0x82] @ ''\<newline>'' @
    [CHR 0xE2, CHR 0x94, CHR 0x94, CHR 0xE2, CHR 0x94, CHR 0x80, CHR 0xE2, CHR 0x94, CHR 0x80, CHR 0xE2, CHR 0x94, CHR 0x80, CHR 0xE2, CHR 0x94, CHR 0x80, CHR 0xE2, CHR 0x94, CHR 0x80, CHR 0xE2, CHR 0x94, CHR 0x80, CHR 0xE2, CHR 0x94, CHR 0x80, CHR 0xE2, CHR 0x94, CHR 0x80, CHR 0xE2, CHR 0x94, CHR 0x80, CHR 0xE2, CHR 0x94, CHR 0x80, CHR 0xE2, CHR 0x94, CHR 0x80, CHR 0xE2, CHR 0x94, CHR 0x80, CHR 0xE2, CHR 0x94, CHR 0x80, CHR 0xE2, CHR 0x94, CHR 0x98] @ ''     '' @ [CHR 0xE2, CHR 0x94, CHR 0x94, CHR 0xE2, CHR 0x94, CHR 0x80, CHR 0xE2, CHR 0x94, CHR 0x80, CHR 0xE2, CHR 0x94, CHR 0x80, CHR 0xE2, CHR 0x94, CHR 0x80, CHR 0xE2, CHR 0x94, CHR 0x80, CHR 0xE2, CHR 0x94, CHR 0x80, CHR 0xE2, CHR 0x94, CHR 0x80, CHR 0xE2, CHR 0x94, CHR 0x80, CHR 0xE2, CHR 0x94, CHR 0x80, CHR 0xE2, CHR 0x94, CHR 0x80, CHR 0xE2, CHR 0x94, CHR 0x80, CHR 0xE2, CHR 0x94, CHR 0x80, CHR 0xE2, CHR 0x94, CHR 0x80, CHR 0xE2, CHR 0x94, CHR 0x98] @ ''     '' @ [CHR 0xE2, CHR 0x94, CHR 0x94, CHR 0xE2, CHR 0x94, CHR 0x80, CHR 0xE2, CHR 0x94, CHR 0x80, CHR 0xE2, CHR 0x94, CHR 0x80, CHR 0xE2, CHR 0x94, CHR 0x80, CHR 0xE2, CHR 0x94, CHR 0x80, CHR 0xE2, CHR 0x94, CHR 0x80, CHR 0xE2, CHR 0x94, CHR 0x80, CHR 0xE2, CHR 0x94, CHR 0x80, CHR 0xE2, CHR 0x94, CHR 0x80, CHR 0xE2, CHR 0x94, CHR 0x80, CHR 0xE2, CHR 0x94, CHR 0x80, CHR 0xE2, CHR 0x94, CHR 0x80, CHR 0xE2, CHR 0x94, CHR 0x80, CHR 0xE2, CHR 0x94, CHR 0x98] @ ''\<newline>'' @
    ''      '' @ [CHR 0xE2, CHR 0x94, CHR 0x82] @ ''                                        '' @ [CHR 0xE2, CHR 0x94, CHR 0x82] @ ''\<newline>'' @
    ''      '' @ [CHR 0xE2, CHR 0x94, CHR 0x82] @ ''                                        '' @ [CHR 0xE2, CHR 0x96, CHR 0xBC] @ ''\<newline>'' @
    ''      '' @ [CHR 0xE2, CHR 0x94, CHR 0x82] @ ''                               '' @ [CHR 0xE2, CHR 0x94, CHR 0x8C, CHR 0xE2, CHR 0x94, CHR 0x80, CHR 0xE2, CHR 0x94, CHR 0x80, CHR 0xE2, CHR 0x94, CHR 0x80, CHR 0xE2, CHR 0x94, CHR 0x80, CHR 0xE2, CHR 0x94, CHR 0x80, CHR 0xE2, CHR 0x94, CHR 0x80, CHR 0xE2, CHR 0x94, CHR 0x80, CHR 0xE2, CHR 0x94, CHR 0x80, CHR 0xE2, CHR 0x94, CHR 0x80, CHR 0xE2, CHR 0x94, CHR 0x80, CHR 0xE2, CHR 0x94, CHR 0x80, CHR 0xE2, CHR 0x94, CHR 0x80, CHR 0xE2, CHR 0x94, CHR 0x80, CHR 0xE2, CHR 0x94, CHR 0x90] @ ''\<newline>'' @
    ''      '' @ [CHR 0xE2, CHR 0x94, CHR 0x94, CHR 0xE2, CHR 0x94, CHR 0x80, CHR 0xE2, CHR 0x94, CHR 0x80, CHR 0xE2, CHR 0x94, CHR 0x80, CHR 0xE2, CHR 0x94, CHR 0x80, CHR 0xE2, CHR 0x94, CHR 0x80, CHR 0xE2, CHR 0x94, CHR 0x80, CHR 0xE2, CHR 0x94, CHR 0x80, CHR 0xE2, CHR 0x94, CHR 0x80, CHR 0xE2, CHR 0x94, CHR 0x80, CHR 0xE2, CHR 0x94, CHR 0x80, CHR 0xE2, CHR 0x94, CHR 0x80, CHR 0xE2, CHR 0x94, CHR 0x80, CHR 0xE2, CHR 0x94, CHR 0x80, CHR 0xE2, CHR 0x94, CHR 0x80, CHR 0xE2, CHR 0x94, CHR 0x80, CHR 0xE2, CHR 0x94, CHR 0x80, CHR 0xE2, CHR 0x94, CHR 0x80, CHR 0xE2, CHR 0x94, CHR 0x80, CHR 0xE2, CHR 0x94, CHR 0x80, CHR 0xE2, CHR 0x94, CHR 0x80, CHR 0xE2, CHR 0x94, CHR 0x80, CHR 0xE2, CHR 0x94, CHR 0x80, CHR 0xE2, CHR 0x94, CHR 0x80, CHR 0xE2, CHR 0x94, CHR 0x80, CHR 0xE2, CHR 0x94, CHR 0x80, CHR 0xE2, CHR 0x94, CHR 0x80, CHR 0xE2, CHR 0x94, CHR 0x80, CHR 0xE2, CHR 0x94, CHR 0x80, CHR 0xE2, CHR 0x94, CHR 0x80, CHR 0xE2, CHR 0x94, CHR 0x80, CHR 0xE2, CHR 0x96, CHR 0xB6, CHR 0xE2, CHR 0x94, CHR 0x82] @ ''  PostgreSQL '' @ [CHR 0xE2, CHR 0x94, CHR 0x82] @ ''\<newline>'' @
    ''                                      '' @ [CHR 0xE2, CHR 0x94, CHR 0x94, CHR 0xE2, CHR 0x94, CHR 0x80, CHR 0xE2, CHR 0x94, CHR 0x80, CHR 0xE2, CHR 0x94, CHR 0x80, CHR 0xE2, CHR 0x94, CHR 0x80, CHR 0xE2, CHR 0x94, CHR 0x80, CHR 0xE2, CHR 0x94, CHR 0x80, CHR 0xE2, CHR 0x94, CHR 0x80, CHR 0xE2, CHR 0x94, CHR 0x80, CHR 0xE2, CHR 0x94, CHR 0x80, CHR 0xE2, CHR 0x94, CHR 0x80, CHR 0xE2, CHR 0x94, CHR 0x80, CHR 0xE2, CHR 0x94, CHR 0x80, CHR 0xE2, CHR 0x94, CHR 0x80, CHR 0xE2, CHR 0x94, CHR 0x98] @ ''\<newline>'' @
    ''```\<newline>'' @
    ''\<newline>'' @
    ''## Services\<newline>'' @
    ''\<newline>'' @
    ''### API Gateway\<newline>'' @
    ''\<newline>'' @
    ''The API Gateway is the entry point for all client requests. It handles:\<newline>'' @
    ''\<newline>'' @
    ''- Request routing\<newline>'' @
    ''- Authentication verification\<newline>'' @
    ''- Request/response logging\<newline>'' @
    ''\<newline>'' @
    ''### Auth Service\<newline>'' @
    ''\<newline>'' @
    ''The Auth Service manages user authentication and authorization:\<newline>'' @
    ''\<newline>'' @
    ''- API key validation\<newline>'' @
    ''- Session management\<newline>'' @
    ''- Permission checks\<newline>'' @
    ''\<newline>'' @
    ''### Data Service\<newline>'' @
    ''\<newline>'' @
    ''The Data Service handles all database operations:\<newline>'' @
    ''\<newline>'' @
    ''- User CRUD operations\<newline>'' @
    ''- Product management\<newline>'' @
    ''- Data validation\<newline>'' @
    ''\<newline>'' @
    ''## Data Flow\<newline>'' @
    ''\<newline>'' @
    ''1. Client sends request to API Gateway\<newline>'' @
    ''2. Gateway validates authentication with Auth Service\<newline>'' @
    ''3. Valid requests are routed to Data Service\<newline>'' @
    ''4. Data Service performs database operations\<newline>'' @
    ''5. Response flows back through the Gateway\<newline>'' @
    ''\<newline>'' @
    ''## Technology Stack\<newline>'' @
    ''\<newline>'' @
    ''| Component | Technology |\<newline>'' @
    ''|-----------|------------|\<newline>'' @
    ''| API Gateway | Node.js / Express |\<newline>'' @
    ''| Auth Service | Node.js / Express |\<newline>'' @
    ''| Data Service | Node.js / Express |\<newline>'' @
    ''| Database | PostgreSQL |\<newline>'' @
    ''| Cache | Redis |\<newline>'' @
    ''\<newline>'' @
    ''## Deployment\<newline>'' @
    ''\<newline>'' @
    ''All services are deployed on AWS using:\<newline>'' @
    ''\<newline>'' @
    ''- ECS for container orchestration\<newline>'' @
    ''- RDS for managed PostgreSQL\<newline>'' @
    ''- ElastiCache for Redis\<newline>''\<close>

definition INITIAL_how_to_guide :: string where
  \<open>INITIAL_how_to_guide =
    ''---\<newline>'' @
    ''sidebar_position: 3\<newline>'' @
    ''---\<newline>'' @
    ''\<newline>'' @
    ''# How-To Guide\<newline>'' @
    ''\<newline>'' @
    ''Step-by-step tutorials for common tasks.\<newline>'' @
    ''\<newline>'' @
    ''## Creating a User\<newline>'' @
    ''\<newline>'' @
    ''This guide walks you through creating a new user via the API.\<newline>'' @
    ''\<newline>'' @
    ''### Prerequisites\<newline>'' @
    ''\<newline>'' @
    ''- An API key (get one from your [dashboard](https://dashboard.acme.io/api-keys))\<newline>'' @
    ''- A tool for making HTTP requests (curl, Postman, etc.)\<newline>'' @
    ''\<newline>'' @
    ''### Step 1: Prepare the Request\<newline>'' @
    ''\<newline>'' @
    ''Create a JSON payload with the user details:\<newline>'' @
    ''\<newline>'' @
    ''```json\<newline>'' @
    ''{\<newline>'' @
    ''  "email": "newuser@example.com",\<newline>'' @
    ''  "name": "Jane Smith"\<newline>'' @
    ''}\<newline>'' @
    ''```\<newline>'' @
    ''\<newline>'' @
    ''### Step 2: Send the Request\<newline>'' @
    ''\<newline>'' @
    ''Make a POST request to the users endpoint:\<newline>'' @
    ''\<newline>'' @
    ''```bash\<newline>'' @
    ''curl -X POST https://api.acme.io/v1/users '' @ [CHR 0x5C] @ ''\<newline>'' @
    ''  -H "Authorization: Bearer YOUR_API_KEY" '' @ [CHR 0x5C] @ ''\<newline>'' @
    ''  -H "Content-Type: application/json" '' @ [CHR 0x5C] @ ''\<newline>'' @
    ''  -d \'{\<newline>'' @
    ''    "email": "newuser@example.com",\<newline>'' @
    ''    "name": "Jane Smith"\<newline>'' @
    ''  }\'\<newline>'' @
    ''```\<newline>'' @
    ''\<newline>'' @
    ''### Step 3: Handle the Response\<newline>'' @
    ''\<newline>'' @
    ''A successful request returns the created user:\<newline>'' @
    ''\<newline>'' @
    ''```json\<newline>'' @
    ''{\<newline>'' @
    ''  "id": "usr_456",\<newline>'' @
    ''  "email": "newuser@example.com",\<newline>'' @
    ''  "name": "Jane Smith",\<newline>'' @
    ''  "created_at": "2024-01-20T14:22:00Z"\<newline>'' @
    ''}\<newline>'' @
    ''```\<newline>'' @
    ''\<newline>'' @
    ''### Common Errors\<newline>'' @
    ''\<newline>'' @
    ''| Status | Error | Solution |\<newline>'' @
    ''|--------|-------|----------|\<newline>'' @
    ''| 400 | Invalid email format | Check the email address is valid |\<newline>'' @
    ''| 401 | Unauthorized | Verify your API key is correct |\<newline>'' @
    ''| 409 | Email already exists | Use a different email address |\<newline>'' @
    ''\<newline>'' @
    ''## Fetching User Details\<newline>'' @
    ''\<newline>'' @
    ''To retrieve a specific user by ID:\<newline>'' @
    ''\<newline>'' @
    ''```bash\<newline>'' @
    ''curl -X GET https://api.acme.io/v1/users/usr_456 '' @ [CHR 0x5C] @ ''\<newline>'' @
    ''  -H "Authorization: Bearer YOUR_API_KEY"\<newline>'' @
    ''```\<newline>'' @
    ''\<newline>'' @
    ''## Listing All Users\<newline>'' @
    ''\<newline>'' @
    ''To list all users in your account:\<newline>'' @
    ''\<newline>'' @
    ''```bash\<newline>'' @
    ''curl -X GET https://api.acme.io/v1/users '' @ [CHR 0x5C] @ ''\<newline>'' @
    ''  -H "Authorization: Bearer YOUR_API_KEY"\<newline>'' @
    ''```\<newline>'' @
    ''\<newline>'' @
    ''The response includes pagination info:\<newline>'' @
    ''\<newline>'' @
    ''```json\<newline>'' @
    ''{\<newline>'' @
    ''  "data": [...],\<newline>'' @
    ''  "has_more": true,\<newline>'' @
    ''  "next_cursor": "cur_abc123"\<newline>'' @
    ''}\<newline>'' @
    ''```\<newline>''\<close>

definition UPDATE_getting_started :: string where
  \<open>UPDATE_getting_started =
    ''---\<newline>'' @
    ''sidebar_position: 1\<newline>'' @
    ''---\<newline>'' @
    ''\<newline>'' @
    ''# Getting Started\<newline>'' @
    ''\<newline>'' @
    ''Welcome to the Acme API! This guide will help you get up and running quickly.\<newline>'' @
    ''\<newline>'' @
    ''## Base URL\<newline>'' @
    ''\<newline>'' @
    ''All API requests should be made to:\<newline>'' @
    ''\<newline>'' @
    ''```\<newline>'' @
    ''https://api.acme.io/v1\<newline>'' @
    ''```\<newline>'' @
    ''\<newline>'' @
    ''## Authentication\<newline>'' @
    ''\<newline>'' @
    ''Include your API key in the Authorization header:\<newline>'' @
    ''\<newline>'' @
    ''```bash\<newline>'' @
    ''Authorization: Bearer YOUR_API_KEY\<newline>'' @
    ''```\<newline>'' @
    ''\<newline>'' @
    ''You can obtain an API key from your [dashboard](https://dashboard.acme.io/api-keys).\<newline>'' @
    ''\<newline>'' @
    ''## Rate Limiting\<newline>'' @
    ''\<newline>'' @
    ''All endpoints are rate limited to **100 requests per minute** per API key. When exceeded, you\'ll receive a `429 Too Many Requests` response.\<newline>'' @
    ''\<newline>'' @
    ''## Endpoints\<newline>'' @
    ''\<newline>'' @
    ''### Users\<newline>'' @
    ''\<newline>'' @
    ''Manage user accounts in your application.\<newline>'' @
    ''\<newline>'' @
    ''| Method | Endpoint | Description |\<newline>'' @
    ''|--------|----------|-------------|\<newline>'' @
    ''| GET | `/users` | List all users (paginated) |\<newline>'' @
    ''| POST | `/users` | Create a new user |\<newline>'' @
    ''| GET | `/users/:id` | Get a user by ID |\<newline>'' @
    ''| PATCH | `/users/:id` | Update a user |\<newline>'' @
    ''| DELETE | `/users/:id` | Delete a user |\<newline>'' @
    ''\<newline>'' @
    ''#### Example: List Users\<newline>'' @
    ''\<newline>'' @
    ''```bash\<newline>'' @
    ''curl -X GET https://api.acme.io/v1/users '' @ [CHR 0x5C] @ ''\<newline>'' @
    ''  -H "Authorization: Bearer YOUR_API_KEY"\<newline>'' @
    ''```\<newline>'' @
    ''\<newline>'' @
    ''Response:\<newline>'' @
    ''\<newline>'' @
    ''```json\<newline>'' @
    ''{\<newline>'' @
    ''  "data": [\<newline>'' @
    ''    {\<newline>'' @
    ''      "id": "usr_123",\<newline>'' @
    ''      "email": "john@example.com",\<newline>'' @
    ''      "name": "John Doe",\<newline>'' @
    ''      "role": "admin",\<newline>'' @
    ''      "created_at": "2024-01-15T10:30:00Z",\<newline>'' @
    ''      "updated_at": "2024-01-15T10:30:00Z"\<newline>'' @
    ''    }\<newline>'' @
    ''  ],\<newline>'' @
    ''  "has_more": false,\<newline>'' @
    ''  "total": 1\<newline>'' @
    ''}\<newline>'' @
    ''```\<newline>'' @
    ''\<newline>'' @
    ''#### Example: Update User\<newline>'' @
    ''\<newline>'' @
    ''```bash\<newline>'' @
    ''curl -X PATCH https://api.acme.io/v1/users/usr_123 '' @ [CHR 0x5C] @ ''\<newline>'' @
    ''  -H "Authorization: Bearer YOUR_API_KEY" '' @ [CHR 0x5C] @ ''\<newline>'' @
    ''  -H "Content-Type: application/json" '' @ [CHR 0x5C] @ ''\<newline>'' @
    ''  -d \'{\<newline>'' @
    ''    "name": "John Updated",\<newline>'' @
    ''    "role": "member"\<newline>'' @
    ''  }\'\<newline>'' @
    ''```\<newline>'' @
    ''\<newline>'' @
    ''#### Example: Delete User\<newline>'' @
    ''\<newline>'' @
    ''```bash\<newline>'' @
    ''curl -X DELETE https://api.acme.io/v1/users/usr_123 '' @ [CHR 0x5C] @ ''\<newline>'' @
    ''  -H "Authorization: Bearer YOUR_API_KEY"\<newline>'' @
    ''```\<newline>'' @
    ''\<newline>'' @
    ''### Products\<newline>'' @
    ''\<newline>'' @
    ''Manage your product catalog.\<newline>'' @
    ''\<newline>'' @
    ''| Method | Endpoint | Description |\<newline>'' @
    ''|--------|----------|-------------|\<newline>'' @
    ''| GET | `/products` | List all products |\<newline>'' @
    ''| POST | `/products` | Create a new product |\<newline>'' @
    ''| GET | `/products/:id` | Get a product by ID |\<newline>'' @
    ''\<newline>'' @
    ''#### Example: Create Product\<newline>'' @
    ''\<newline>'' @
    ''```bash\<newline>'' @
    ''curl -X POST https://api.acme.io/v1/products '' @ [CHR 0x5C] @ ''\<newline>'' @
    ''  -H "Authorization: Bearer YOUR_API_KEY" '' @ [CHR 0x5C] @ ''\<newline>'' @
    ''  -H "Content-Type: application/json" '' @ [CHR 0x5C] @ ''\<newline>'' @
    ''  -d \'{\<newline>'' @
    ''    "name": "Pro Plan",\<newline>'' @
    ''    "price": 99.00,\<newline>'' @
    ''    "currency": "USD"\<newline>'' @
    ''  }\'\<newline>'' @
    ''```\<newline>'' @
    ''\<newline>'' @
    ''## Error Handling\<newline>'' @
    ''\<newline>'' @
    ''All errors follow a consistent format:\<newline>'' @
    ''\<newline>'' @
    ''```json\<newline>'' @
    ''{\<newline>'' @
    ''  "error": {\<newline>'' @
    ''    "code": "VALIDATION_ERROR",\<newline>'' @
    ''    "message": "Invalid email format",\<newline>'' @
    ''    "field": "email"\<newline>'' @
    ''  }\<newline>'' @
    ''}\<newline>'' @
    ''```\<newline>'' @
    ''\<newline>'' @
    ''| Status | Code | Description |\<newline>'' @
    ''|--------|------|-------------|\<newline>'' @
    ''| 400 | VALIDATION_ERROR | Invalid request body |\<newline>'' @
    ''| 401 | UNAUTHORIZED | Missing or invalid API key |\<newline>'' @
    ''| 404 | NOT_FOUND | Resource not found |\<newline>'' @
    ''| 429 | RATE_LIMITED | Too many requests |\<newline>'' @
    ''\<newline>'' @
    ''## Next Steps\<newline>'' @
    ''\<newline>'' @
    ''- Read the [Architecture Overview](./architecture) to understand our system\<newline>'' @
    ''- Follow the [How-To Guide](./how-to-guide) for step-by-step tutorials\<newline>''\<close>

definition UPDATE_how_to_guide :: string where
  \<open>UPDATE_how_to_guide =
    ''---\<newline>'' @
    ''sidebar_position: 3\<newline>'' @
    ''---\<newline>'' @
    ''\<newline>'' @
    ''# How-To Guide\<newline>'' @
    ''\<newline>'' @
    ''Step-by-step tutorials for common tasks.\<newline>'' @
    ''\<newline>'' @
    ''## Creating a User\<newline>'' @
    ''\<newline>'' @
    ''This guide walks you through creating a new user via the API.\<newline>'' @
    ''\<newline>'' @
    ''### Prerequisites\<newline>'' @
    ''\<newline>'' @
    ''- An API key (get one from your [dashboard](https://dashboard.acme.io/api-keys))\<newline>'' @
    ''- A tool for making HTTP requests (curl, Postman, etc.)\<newline>'' @
    ''\<newline>'' @
    ''### Step 1: Prepare the Request\<newline>'' @
    ''\<newline>'' @
    ''Create a JSON payload with the user details:\<newline>'' @
    ''\<newline>'' @
    ''```json\<newline>'' @
    ''{\<newline>'' @
    ''  "email": "newuser@example.com",\<newline>'' @
    ''  "name": "Jane Smith",\<newline>'' @
    ''  "role": "member"\<newline>'' @
    ''}\<newline>'' @
    ''```\<newline>'' @
    ''\<newline>'' @
    ''**Available roles:** `admin`, `member`, `viewer`\<newline>'' @
    ''\<newline>'' @
    ''### Step 2: Send the Request\<newline>'' @
    ''\<newline>'' @
    ''Make a POST request to the users endpoint:\<newline>'' @
    ''\<newline>'' @
    ''```bash\<newline>'' @
    ''curl -X POST https://api.acme.io/v1/users '' @ [CHR 0x5C] @ ''\<newline>'' @
    ''  -H "Authorization: Bearer YOUR_API_KEY" '' @ [CHR 0x5C] @ ''\<newline>'' @
    ''  -H "Content-Type: application/json" '' @ [CHR 0x5C] @ ''\<newline>'' @
    ''  -d \'{\<newline>'' @
    ''    "email": "newuser@example.com",\<newline>'' @
    ''    "name": "Jane Smith",\<newline>'' @
    ''    "role": "member"\<newline>'' @
    ''  }\'\<newline>'' @
    ''```\<newline>'' @
    ''\<newline>'' @
    ''### Step 3: Handle the Response\<newline>'' @
    ''\<newline>'' @
    ''A successful request returns the created user:\<newline>'' @
    ''\<newline>'' @
    ''```json\<newline>'' @
    ''{\<newline>'' @
    ''  "id": "usr_456",\<newline>'' @
    ''  "email": "newuser@example.com",\<newline>'' @
    ''  "name": "Jane Smith",\<newline>'' @
    ''  "role": "member",\<newline>'' @
    ''  "created_at": "2024-01-20T14:22:00Z",\<newline>'' @
    ''  "updated_at": "2024-01-20T14:22:00Z"\<newline>'' @
    ''}\<newline>'' @
    ''```\<newline>'' @
    ''\<newline>'' @
    ''### Common Errors\<newline>'' @
    ''\<newline>'' @
    ''| Status | Error | Solution |\<newline>'' @
    ''|--------|-------|----------|\<newline>'' @
    ''| 400 | Invalid email format | Check the email address is valid |\<newline>'' @
    ''| 400 | Invalid role | Use one of: admin, member, viewer |\<newline>'' @
    ''| 401 | Unauthorized | Verify your API key is correct |\<newline>'' @
    ''| 409 | Email already exists | Use a different email address |\<newline>'' @
    ''| 429 | Rate limited | Wait and retry after 60 seconds |\<newline>'' @
    ''\<newline>'' @
    ''## Updating a User\<newline>'' @
    ''\<newline>'' @
    ''To update an existing user:\<newline>'' @
    ''\<newline>'' @
    ''```bash\<newline>'' @
    ''curl -X PATCH https://api.acme.io/v1/users/usr_456 '' @ [CHR 0x5C] @ ''\<newline>'' @
    ''  -H "Authorization: Bearer YOUR_API_KEY" '' @ [CHR 0x5C] @ ''\<newline>'' @
    ''  -H "Content-Type: application/json" '' @ [CHR 0x5C] @ ''\<newline>'' @
    ''  -d \'{\<newline>'' @
    ''    "name": "Jane Smith-Jones",\<newline>'' @
    ''    "role": "admin"\<newline>'' @
    ''  }\'\<newline>'' @
    ''```\<newline>'' @
    ''\<newline>'' @
    ''Only include the fields you want to update.\<newline>'' @
    ''\<newline>'' @
    ''## Deleting a User\<newline>'' @
    ''\<newline>'' @
    ''To delete a user:\<newline>'' @
    ''\<newline>'' @
    ''```bash\<newline>'' @
    ''curl -X DELETE https://api.acme.io/v1/users/usr_456 '' @ [CHR 0x5C] @ ''\<newline>'' @
    ''  -H "Authorization: Bearer YOUR_API_KEY"\<newline>'' @
    ''```\<newline>'' @
    ''\<newline>'' @
    ''**Note:** This action is irreversible.\<newline>'' @
    ''\<newline>'' @
    ''## Fetching User Details\<newline>'' @
    ''\<newline>'' @
    ''To retrieve a specific user by ID:\<newline>'' @
    ''\<newline>'' @
    ''```bash\<newline>'' @
    ''curl -X GET https://api.acme.io/v1/users/usr_456 '' @ [CHR 0x5C] @ ''\<newline>'' @
    ''  -H "Authorization: Bearer YOUR_API_KEY"\<newline>'' @
    ''```\<newline>'' @
    ''\<newline>'' @
    ''## Listing All Users\<newline>'' @
    ''\<newline>'' @
    ''To list all users in your account:\<newline>'' @
    ''\<newline>'' @
    ''```bash\<newline>'' @
    ''curl -X GET https://api.acme.io/v1/users '' @ [CHR 0x5C] @ ''\<newline>'' @
    ''  -H "Authorization: Bearer YOUR_API_KEY"\<newline>'' @
    ''```\<newline>'' @
    ''\<newline>'' @
    ''The response includes pagination info:\<newline>'' @
    ''\<newline>'' @
    ''```json\<newline>'' @
    ''{\<newline>'' @
    ''  "data": [...],\<newline>'' @
    ''  "has_more": true,\<newline>'' @
    ''  "total": 150,\<newline>'' @
    ''  "next_cursor": "cur_abc123"\<newline>'' @
    ''}\<newline>'' @
    ''```\<newline>'' @
    ''\<newline>'' @
    ''Use the cursor for pagination:\<newline>'' @
    ''\<newline>'' @
    ''```bash\<newline>'' @
    ''curl -X GET "https://api.acme.io/v1/users?cursor=cur_abc123" '' @ [CHR 0x5C] @ ''\<newline>'' @
    ''  -H "Authorization: Bearer YOUR_API_KEY"\<newline>'' @
    ''```\<newline>''\<close>

definition DEMO_CODE_BEFORE :: string where
  \<open>DEMO_CODE_BEFORE =
    ''import { Router } from \'express\';\<newline>'' @
    ''\<newline>'' @
    ''const router = Router();\<newline>'' @
    ''\<newline>'' @
    ''// In-memory storage for demo\<newline>'' @
    ''const users: Array<{ id: string; email: string; name: string; created_at: string }> = [\<newline>'' @
    ''  { id: \'usr_123\', email: \'john@example.com\', name: \'John Doe\', created_at: \'2024-01-15T10:30:00Z\' }\<newline>'' @
    ''];\<newline>'' @
    ''\<newline>'' @
    ''// GET /users - List all users\<newline>'' @
    ''router.get(\'/\', (req, res) => {\<newline>'' @
    ''  res.json({\<newline>'' @
    ''    data: users,\<newline>'' @
    ''    has_more: false\<newline>'' @
    ''  });\<newline>'' @
    ''});\<newline>'' @
    ''\<newline>'' @
    ''// POST /users - Create a user\<newline>'' @
    ''router.post(\'/\', (req, res) => {\<newline>'' @
    ''  const { email, name } = req.body;\<newline>'' @
    ''  const newUser = {\<newline>'' @
    ''    id: `usr_${Date.now()}`,\<newline>'' @
    ''    email,\<newline>'' @
    ''    name,\<newline>'' @
    ''    created_at: new Date().toISOString()\<newline>'' @
    ''  };\<newline>'' @
    ''  users.push(newUser);\<newline>'' @
    ''  res.status(201).json(newUser);\<newline>'' @
    ''});\<newline>'' @
    ''\<newline>'' @
    ''// GET /users/:id - Get user by ID\<newline>'' @
    ''router.get(\'/:id\', (req, res) => {\<newline>'' @
    ''  const user = users.find(u => u.id === req.params.id);\<newline>'' @
    ''  if (!user) {\<newline>'' @
    ''    return res.status(404).json({ error: \'User not found\' });\<newline>'' @
    ''  }\<newline>'' @
    ''  res.json(user);\<newline>'' @
    ''});\<newline>'' @
    ''\<newline>'' @
    ''export default router;\<newline>''\<close>

text \<open>The two tables, with the keys in the order of the object literals.\<close>

definition INITIAL_DOCS :: "(string \<times> string) list" where
  "INITIAL_DOCS =
     [(''docs/getting-started.md'', INITIAL_getting_started),
      (''docs/architecture.md'', INITIAL_architecture),
      (''docs/how-to-guide.md'', INITIAL_how_to_guide)]"

definition UPDATE_MAPPINGS :: "(string \<times> (string \<times> string) list) list" where
  "UPDATE_MAPPINGS =
     [(''src/routes/users.ts'',
       [(''docs/getting-started.md'', UPDATE_getting_started),
        (''docs/how-to-guide.md'', UPDATE_how_to_guide)])]"

subsection \<open>The gaps module\<close>

datatype gap_type = STALENESS | UNDOCUMENTED | OBSOLETE

datatype severity = critical | high | medium | low

record suggested_fix =
  file_fix :: string
  before :: string
  after :: string

record DocGap =
  id_gap :: string
  gap_type :: gap_type
  severity :: severity
  doc_file :: string
  description :: string
  evidence :: "string option"
  suggested_fix :: suggested_fix

text \<open>The \<^verbatim>\<open>before\<close> and \<^verbatim>\<open>after\<close> texts of the five gaps.\<close>

definition gap_001_before :: string where
  \<open>gap_001_before =
    ''## Rate Limiting\<newline>'' @
    ''\<newline>'' @
    ''All endpoints are rate limited to **50 requests per minute** per API key. When exceeded, you\'ll receive a `429 Too Many Requests` response.\<newline>'' @
    ''\<newline>'' @
    ''## Endpoints''\<close>

definition gap_001_after :: string where
  \<open>gap_001_after =
    ''## Rate Limiting\<newline>'' @
    ''\<newline>'' @
    ''All endpoints are rate limited to **100 requests per minute** per API key. When exceeded, you\'ll receive a `429 Too Many Requests` response with a `Retry-After` header indicating when you can retry.\<newline>'' @
    ''\<newline>'' @
    ''## Endpoints''\<close>

definition gap_002_before :: string where
  \<open>gap_002_before =
    ''### Webhook Service (New)\<newline>'' @
    ''\<newline>'' @
    ''The Webhook Service handles outbound event notifications:\<newline>'' @
    ''\<newline>'' @
    ''- Event queuing and retry logic\<newline>'' @
    ''- Signature verification\<newline>'' @
    ''- Delivery status tracking\<newline>'' @
    ''\<newline>'' @
    ''## Data Flow''\<close>

definition gap_002_after :: string where
  \<open>gap_002_after =
    ''### Webhook Service (New)\<newline>'' @
    ''\<newline>'' @
    ''The Webhook Service handles outbound event notifications:\<newline>'' @
    ''\<newline>'' @
    ''- Event queuing and retry logic\<newline>'' @
    ''- Signature verification\<newline>'' @
    ''- Delivery status tracking\<newline>'' @
    ''\<newline>'' @
    ''### WebSocket Service\<newline>'' @
    ''\<newline>'' @
    ''The WebSocket Service provides real-time updates to connected clients:\<newline>'' @
    ''\<newline>'' @
    ''- Live event streaming for dashboard updates\<newline>'' @
    ''- Connection management with automatic reconnection\<newline>'' @
    ''- Event types: `ANALYZING_CHANGES`, `COMMITTED`, `PR_CREATED`, `PR_MERGED`\<newline>'' @
    ''\<newline>'' @
    ''```javascript\<newline>'' @
    ''// Connect to WebSocket for real-time updates\<newline>'' @
    ''const ws = new WebSocket(\'wss://api.acme.io/ws\');\<newline>'' @
    ''ws.onmessage = (event) => {\<newline>'' @
    ''  const data = JSON.parse(event.data);\<newline>'' @
    ''  console.log(\'Event:\', data.type);\<newline>'' @
    ''};\<newline>'' @
    ''```\<newline>'' @
    ''\<newline>'' @
    ''## Data Flow''\<close>

definition gap_003_before :: string where
  \<open>gap_003_before =
    ''### Common Errors\<newline>'' @
    ''\<newline>'' @
    ''| Status | Error | Solution |\<newline>'' @
    ''|--------|-------|----------|\<newline>'' @
    ''| 400 | Invalid email format | Check the email address is valid |\<newline>'' @
    ''| 401 | Unauthorized | Verify your API key is correct |\<newline>'' @
    ''| 409 | Email already exists | Use a different email address |\<newline>'' @
    ''\<newline>'' @
    ''## Fetching User Details''\<close>

definition gap_003_after :: string where
  \<open>gap_003_after =
    ''### Common Errors\<newline>'' @
    ''\<newline>'' @
    ''| Status | Code | Message | Solution |\<newline>'' @
    ''|--------|------|---------|----------|\<newline>'' @
    ''| 400 | `VALIDATION_ERROR` | Invalid email format | Check the email address is valid |\<newline>'' @
    ''| 401 | `UNAUTHORIZED` | Missing or invalid API key | Verify your API key is correct |\<newline>'' @
    ''| 409 | `CONFLICT` | Email already exists | Use a different email address |\<newline>'' @
    ''\<newline>'' @
    ''All errors follow a consistent JSON format:\<newline>'' @
    ''\<newline>'' @
    ''```json\<newline>'' @
    ''{\<newline>'' @
    ''  "error": {\<newline>'' @
    ''    "code": "VALIDATION_ERROR",\<newline>'' @
    ''    "message": "Invalid email format",\<newline>'' @
    ''    "field": "email"\<newline>'' @
    ''  }\<newline>'' @
    ''}\<newline>'' @
    ''```\<newline>'' @
    ''\<newline>'' @
    ''## Fetching User Details''\<close>

definition gap_004_before :: string where
  \<open>gap_004_before =
    ''| DELETE | `/users/:id` | Delete a user |\<newline>'' @
    ''\<newline>'' @
    ''#### Example: List Users''\<close>

definition gap_004_after :: string where
  \<open>gap_004_after =
    ''| DELETE | `/users/:id` | Delete a user |\<newline>'' @
    ''| POST | `/users/batch` | Create multiple users |\<newline>'' @
    ''\<newline>'' @
    ''#### Batch Operations\<newline>'' @
    ''\<newline>'' @
    ''Create up to 100 users in a single request:\<newline>'' @
    ''\<newline>'' @
    ''```bash\<newline>'' @
    ''curl -X POST https://api.acme.io/v1/users/batch '' @ [CHR 0x5C] @ ''\<newline>'' @
    ''  -H "Authorization: Bearer YOUR_API_KEY" '' @ [CHR 0x5C] @ ''\<newline>'' @
    ''  -H "Content-Type: application/json" '' @ [CHR 0x5C] @ ''\<newline>'' @
    ''  -d \'{\<newline>'' @
    ''    "users": [\<newline>'' @
    ''      { "email": "user1@example.com", "name": "User 1" },\<newline>'' @
    ''      { "email": "user2@example.com", "name": "User 2" }\<newline>'' @
    ''    ]\<newline>'' @
    ''  }\'\<newline>'' @
    ''```\<newline>'' @
    ''\<newline>'' @
    ''#### Example: List Users''\<close>

definition gap_005_before :: string where
  \<open>gap_005_before =
    ''## API Versioning\<newline>'' @
    ''\<newline>'' @
    ''The API uses URL-based versioning. The current version is `v1`.\<newline>'' @
    ''\<newline>'' @
    ''```\<newline>'' @
    ''https://api.acme.io/v1/...\<newline>'' @
    ''https://api.acme.io/v2/...  (coming soon)\<newline>'' @
    ''```\<newline>'' @
    ''\<newline>'' @
    ''**Version Lifecycle:**\<newline>'' @
    ''- `v1` - Current stable version\<newline>'' @
    ''- `v2` - Beta (breaking changes)\<newline>'' @
    ''- Deprecated versions receive 12 months support''\<close>

definition gap_005_after :: string where
  \<open>gap_005_after =
    ''## API Versioning\<newline>'' @
    ''\<newline>'' @
    ''The API uses URL-based versioning. The current stable version is `v1`.\<newline>'' @
    ''\<newline>'' @
    ''```\<newline>'' @
    ''https://api.acme.io/v1/...\<newline>'' @
    ''```\<newline>'' @
    ''\<newline>'' @
    ''**Version Lifecycle:**\<newline>'' @
    ''- `v1` - Current stable version (recommended)\<newline>'' @
    ''- `v2` - In development, not yet available\<newline>'' @
    ''- Deprecated versions are supported for 12 months after deprecation notice''\<close>

definition PREDETERMINED_GAPS :: "DocGap list" where
  \<open>PREDETERMINED_GAPS =
     [\<lparr>id_gap = ''gap_001'', gap_type = STALENESS, severity = high,
       doc_file = ''docs/getting-started.md'',
       description = ''Rate limit value differs between documentation and implementation'',
       evidence = Some ''Documentation says 50 req/min but code defines RATE_LIMIT = 100'',
       suggested_fix = \<lparr>file_fix = ''docs/getting-started.md'',
         before = gap_001_before, after = gap_001_after\<rparr>\<rparr>,
      \<lparr>id_gap = ''gap_002'', gap_type = UNDOCUMENTED, severity = medium,
       doc_file = ''docs/architecture.md'',
       description = ''WebSocket real-time updates feature is implemented but not documented'',
       evidence = Some ''Found WebSocketServer in src/index.ts with event broadcasting'',
       suggested_fix = \<lparr>file_fix = ''docs/architecture.md'',
         before = gap_002_before, after = gap_002_after\<rparr>\<rparr>,
      \<lparr>id_gap = ''gap_003'', gap_type = STALENESS, severity = low,
       doc_file = ''docs/how-to-guide.md'',
       description = ''Error response format in documentation uses old string format instead of new object format'',
       evidence = Some ''Code returns { error: { code, message } } but docs show { error: "string" }'',
       suggested_fix = \<lparr>file_fix = ''docs/how-to-guide.md'',
         before = gap_003_before, after = gap_003_after\<rparr>\<rparr>,
      \<lparr>id_gap = ''gap_004'', gap_type = UNDOCUMENTED, severity = high,
       doc_file = ''docs/getting-started.md'',
       description = ''Batch operations endpoint is available but not documented'',
       evidence = Some ''POST /users/batch endpoint found in routes/users.ts'',
       suggested_fix = \<lparr>file_fix = ''docs/getting-started.md'',
         before = gap_004_before, after = gap_004_after\<rparr>\<rparr>,
      \<lparr>id_gap = ''gap_005'', gap_type = OBSOLETE, severity = low,
       doc_file = ''docs/architecture.md'',
       description = ''Documentation references deprecated v0 API endpoint format'',
       evidence = Some ''Found reference to /api/v0/ which was removed in latest release'',
       suggested_fix = \<lparr>file_fix = ''docs/architecture.md'',
         before = gap_005_before, after = gap_005_after\<rparr>\<rparr>]\<close>

text \<open>The names a template literal prints for the two enumerations.\<close>

fun gap_type_name :: "gap_type \<Rightarrow> string" where
  "gap_type_name STALENESS = ''STALENESS''"
| "gap_type_name UNDOCUMENTED = ''UNDOCUMENTED''"
| "gap_type_name OBSOLETE = ''OBSOLETE''"

fun severity_name :: "severity \<Rightarrow> string" where
  "severity_name critical = ''critical''"
| "severity_name high = ''high''"
| "severity_name medium = ''medium''"
| "severity_name low = ''low''"

text \<open>\<^verbatim>\<open>applyGapFix(gap, currentContent)\<close>.\<close>

definition applyGapFix :: "DocGap \<Rightarrow> string \<Rightarrow> string" where
  "applyGapFix gap currentContent =
     replace currentContent (before (suggested_fix gap)) (after (suggested_fix gap))"

section \<open>Configuration and the admin guard\<close>

record config =
  DOCS_REPO_OWNER :: string
  DOCS_REPO :: string
  PRODUCT_REPO_OWNER :: string
  PRODUCT_REPO :: string
  WEBHOOK_SECRET :: string
  ADMIN_SECRET :: string

text \<open>\<^verbatim>\<open>process.env.NAME || 'default'\<close>: an unset and an empty variable both give the default.\<close>

definition env_or :: "(string \<rightharpoonup> string) \<Rightarrow> string \<Rightarrow> string \<Rightarrow> string" where
  "env_or env name dflt =
     (case env name of None \<Rightarrow> dflt | Some v \<Rightarrow> if v = [] then dflt else v)"

definition load_config :: "(string \<rightharpoonup> string) \<Rightarrow> config" where
  "load_config env =
     \<lparr>DOCS_REPO_OWNER = env_or env ''DOCS_REPO_OWNER'' ''haritha1313'',
      DOCS_REPO = env_or env ''DOCS_REPO'' ''oqoqo-demo-docs'',
      PRODUCT_REPO_OWNER = env_or env ''PRODUCT_REPO_OWNER'' ''haritha1313'',
      PRODUCT_REPO = env_or env ''PRODUCT_REPO'' ''oqoqo-demo-product'',
      WEBHOOK_SECRET = env_or env ''WEBHOOK_SECRET'' ''demo-secret'',
      ADMIN_SECRET = env_or env ''ADMIN_SECRET'' []\<rparr>"

text \<open>
  \<^verbatim>\<open>requireAdmin\<close>: the middleware either calls \<^verbatim>\<open>next()\<close> or answers 401. The header is
  \<open>None\<close> when the request has no \<^verbatim>\<open>Authorization\<close> header; \<^verbatim>\<open>!authHeader\<close> also holds for
  the empty string.
\<close>

datatype guard = Next | Unauthorized

definition requireAdmin :: "config \<Rightarrow> string option \<Rightarrow> guard" where
  "requireAdmin cfg authHeader =
     (if ADMIN_SECRET cfg = [] then Next
      else if authHeader = None \<or> authHeader = Some []
              \<or> authHeader \<noteq> Some (''Bearer '' @ ADMIN_SECRET cfg)
      then Unauthorized
      else Next)"

section \<open>The server's state and the world outside\<close>

datatype review_status = pending | approved | merged

record file_pair =
  before_text :: string
  after_text :: string

record Review =
  id_review :: int
  prNumber :: "nat option"
  prUrl :: "string option"
  branch :: "string option"
  files :: "(string \<times> file_pair) list"
  status :: review_status
  createdAt :: string

datatype event =
    ANALYZING_CHANGES "string list"
  | NO_UPDATES_NEEDED
  | BRANCH_CREATED string
  | PR_CREATED nat string
  | PR_MERGED nat
  | DEPLOYMENT_STARTED
  | RESET_STARTED
  | PR_CLOSED nat
  | DEMO_RESET
  | FIX_STARTED nat
  | FILE_COMMITTED string
  | FIX_ERROR string

text \<open>
  The calls of the hosting platform the handlers make, with their arguments (owner and
  repository first). The file content of a commit is the text before its base64 encoding.
\<close>

datatype call =
    GetContent string string string string
  | CreateOrUpdateFileContents string string string string string "string option" string
  | GetRef string string string
  | CreateRef string string string string
  | DeleteRef string string string
  | PullsCreate string string string string string string
  | PullsMerge string string nat string
  | PullsList string string string
  | PullsUpdate string string nat string

text \<open>
  \<^verbatim>\<open>pendingReviews\<close> is a \<^verbatim>\<open>Map\<close>, kept in insertion order; \<^verbatim>\<open>reviewIdCounter\<close> and
  \<^verbatim>\<open>accessLevel\<close> are the other two module variables. \<open>broadcasts\<close> holds every event
  given to \<^verbatim>\<open>broadcast\<close> with the timestamp it was stamped with, \<open>calls\<close> every call of the
  platform, both oldest first; \<open>clock_reads\<close> counts the readings of the clock.
  A JavaScript number that holds an id, a pull-request number or a time is an integer
  here: these stay below \<open>2\<^sup>5\<^sup>3\<close>, where the arithmetic of numbers is exact.
\<close>

record server =
  pendingReviews :: "(int \<times> Review) list"
  reviewIdCounter :: int
  accessLevel :: string
  broadcasts :: "(event \<times> string) list"
  calls :: "call list"
  clock_reads :: nat

text \<open>The module's initial values, with \<^verbatim>\<open>process.env.AGENT_ACCESS_LEVEL || 'medium'\<close>.\<close>

definition initial_server :: "(string \<rightharpoonup> string) \<Rightarrow> server" where
  "initial_server env =
     \<lparr>pendingReviews = [], reviewIdCounter = 1,
      accessLevel = env_or env ''AGENT_ACCESS_LEVEL'' ''medium'',
      broadcasts = [], calls = [], clock_reads = 0\<rparr>"

text \<open>
  What \<^verbatim>\<open>repos.getContent\<close> resolves to, as far as the program reads it: \<open>data_sha\<close> is
  \<open>None\<close> when the data has no \<^verbatim>\<open>sha\<close>, \<open>data_content\<close> is the decoded text when the data
  has a \<^verbatim>\<open>content\<close> with base64 encoding.
\<close>

record content_data =
  data_sha :: "string option"
  data_content :: "string option"

record pull =
  number :: nat
  html_url :: string

text \<open>
  The platform's replies. Each is a function of the calls made so far, the call being
  answered last; \<open>Inl message\<close> is a rejected promise. \<open>Date_now\<close> gives the clock's value
  at its \<open>n\<close>-th reading, \<open>toISOString\<close> its ISO form.
\<close>

record platform =
  getContent_reply :: "call list \<Rightarrow> string + content_data"
  createOrUpdateFileContents_reply :: "call list \<Rightarrow> string + unit"
  getRef_reply :: "call list \<Rightarrow> string + string"
  createRef_reply :: "call list \<Rightarrow> string + unit"
  deleteRef_reply :: "call list \<Rightarrow> string + unit"
  pulls_create_reply :: "call list \<Rightarrow> string + pull"
  pulls_merge_reply :: "call list \<Rightarrow> string + unit"
  pulls_list_reply :: "call list \<Rightarrow> string + pull list"
  pulls_update_reply :: "call list \<Rightarrow> string + unit"
  Date_now :: "nat \<Rightarrow> nat"
  toISOString :: "nat \<Rightarrow> string"

definition read_clock :: "platform \<Rightarrow> server \<Rightarrow> nat \<times> server" where
  "read_clock pf w = (Date_now pf (clock_reads w), w\<lparr>clock_reads := Suc (clock_reads w)\<rparr>)"

definition broadcast :: "platform \<Rightarrow> event \<Rightarrow> server \<Rightarrow> server" where
  "broadcast pf e w =
     (case read_clock pf w of
        (t, w') \<Rightarrow> w'\<lparr>broadcasts := broadcasts w' @ [(e, toISOString pf t)]\<rparr>)"

definition issue :: "call \<Rightarrow> server \<Rightarrow> server" where
  "issue c w = w\<lparr>calls := calls w @ [c]\<rparr>"

definition repos_getContent ::
  "platform \<Rightarrow> string \<Rightarrow> string \<Rightarrow> string \<Rightarrow> string \<Rightarrow> server \<Rightarrow> (string + content_data) \<times> server" where
  "repos_getContent pf owner repo path ref w =
     (let w' = issue (GetContent owner repo path ref) w in (getContent_reply pf (calls w'), w'))"

definition repos_createOrUpdateFileContents ::
  "platform \<Rightarrow> string \<Rightarrow> string \<Rightarrow> string \<Rightarrow> string \<Rightarrow> string \<Rightarrow> string option \<Rightarrow> string
     \<Rightarrow> server \<Rightarrow> (string + unit) \<times> server" where
  "repos_createOrUpdateFileContents pf owner repo path message text sha br w =
     (let w' = issue (CreateOrUpdateFileContents owner repo path message text sha br) w
      in (createOrUpdateFileContents_reply pf (calls w'), w'))"

definition git_getRef ::
  "platform \<Rightarrow> string \<Rightarrow> string \<Rightarrow> string \<Rightarrow> server \<Rightarrow> (string + string) \<times> server" where
  "git_getRef pf owner repo ref w =
     (let w' = issue (GetRef owner repo ref) w in (getRef_reply pf (calls w'), w'))"

definition git_createRef ::
  "platform \<Rightarrow> string \<Rightarrow> string \<Rightarrow> string \<Rightarrow> string \<Rightarrow> server \<Rightarrow> (string + unit) \<times> server" where
  "git_createRef pf owner repo ref sha w =
     (let w' = issue (CreateRef owner repo ref sha) w in (createRef_reply pf (calls w'), w'))"

definition git_deleteRef ::
  "platform \<Rightarrow> string \<Rightarrow> string \<Rightarrow> string \<Rightarrow> server \<Rightarrow> (string + unit) \<times> server" where
  "git_deleteRef pf owner repo ref w =
     (let w' = issue (DeleteRef owner repo ref) w in (deleteRef_reply pf (calls w'), w'))"

definition pulls_create ::
  "platform \<Rightarrow> string \<Rightarrow> string \<Rightarrow> string \<Rightarrow> string \<Rightarrow> string \<Rightarrow> string \<Rightarrow> server
     \<Rightarrow> (string + pull) \<times> server" where
  "pulls_create pf owner repo title head base body w =
     (let w' = issue (PullsCreate owner repo title head base body) w
      in (pulls_create_reply pf (calls w'), w'))"

definition pulls_merge ::
  "platform \<Rightarrow> string \<Rightarrow> string \<Rightarrow> nat \<Rightarrow> string \<Rightarrow> server \<Rightarrow> (string + unit) \<times> server" where
  "pulls_merge pf owner repo pull_number merge_method w =
     (let w' = issue (PullsMerge owner repo pull_number merge_method) w
      in (pulls_merge_reply pf (calls w'), w'))"

definition pulls_list ::
  "platform \<Rightarrow> string \<Rightarrow> string \<Rightarrow> string \<Rightarrow> server \<Rightarrow> (string + pull list) \<times> server" where
  "pulls_list pf owner repo state w =
     (let w' = issue (PullsList owner repo state) w in (pulls_list_reply pf (calls w'), w'))"

definition pulls_update ::
  "platform \<Rightarrow> string \<Rightarrow> string \<Rightarrow> nat \<Rightarrow> string \<Rightarrow> server \<Rightarrow> (string + unit) \<times> server" where
  "pulls_update pf owner repo pull_number state w =
     (let w' = issue (PullsUpdate owner repo pull_number state) w
      in (pulls_update_reply pf (calls w'), w'))"

section \<open>Helpers of the handlers\<close>

text \<open>\<^verbatim>\<open>getFileSha\<close>: a failed call and data without \<^verbatim>\<open>sha\<close> both give \<^verbatim>\<open>null\<close>.\<close>

definition getFileSha ::
  "platform \<Rightarrow> string \<Rightarrow> string \<Rightarrow> string \<Rightarrow> string \<Rightarrow> server \<Rightarrow> string option \<times> server" where
  "getFileSha pf owner repo path ref w =
     (case repos_getContent pf owner repo path ref w of
        (Inl e, w') \<Rightarrow> (None, w')
      | (Inr data, w') \<Rightarrow> (data_sha data, w'))"

text \<open>\<^verbatim>\<open>commitFile\<close>, the branch given by the caller (\<^verbatim>\<open>'main'\<close> where the source leaves it out); \<^verbatim>\<open>sha || undefined\<close> drops an empty sha.\<close>

definition commitFile ::
  "platform \<Rightarrow> string \<Rightarrow> string \<Rightarrow> string \<Rightarrow> string \<Rightarrow> string \<Rightarrow> string \<Rightarrow> server
     \<Rightarrow> (string + unit) \<times> server" where
  "commitFile pf owner repo path text message br w =
     (case getFileSha pf owner repo path br w of
        (sha, w') \<Rightarrow>
          repos_createOrUpdateFileContents pf owner repo path message text
            (if sha = Some [] then None else sha) br w')"

text \<open>\<^verbatim>\<open>getFileContent\<close>, always read from \<^verbatim>\<open>'main'\<close> by its one caller.\<close>

definition getFileContent ::
  "platform \<Rightarrow> string \<Rightarrow> string \<Rightarrow> string \<Rightarrow> string \<Rightarrow> server \<Rightarrow> string option \<times> server" where
  "getFileContent pf owner repo path ref w =
     (case repos_getContent pf owner repo path ref w of
        (Inl e, w') \<Rightarrow> (None, w')
      | (Inr data, w') \<Rightarrow> (data_content data, w'))"

section \<open>Review mode: \<^verbatim>\<open>handleMediumAccess\<close>\<close>

text \<open>
  The inner loop over \<^verbatim>\<open>Object.entries(fileUpdates)\<close>: each documentation path gets its
  before text from the initial documents (\<^verbatim>\<open>|| ''\<close> when there is none) and the new text.
\<close>

fun add_updates ::
  "(string \<times> string) list \<Rightarrow> (string \<times> string) list \<Rightarrow> (string \<times> file_pair) list
     \<Rightarrow> (string \<times> file_pair) list" where
  "add_updates initial [] updates = updates"
| "add_updates initial ((docPath, newContent) # rest) updates =
     add_updates initial rest
       (AList.update docPath
          \<lparr>before_text = (case map_of initial docPath of None \<Rightarrow> [] | Some t \<Rightarrow> t),
           after_text = newContent\<rparr>
          updates)"

text \<open>
  The outer loop over the changed files; a path without an entry in the table is skipped.
  (A path that names a property every object inherits, such as \<^verbatim>\<open>constructor\<close>, is not
  skipped by the source, but has no entries of its own to enumerate: the same result.)
\<close>

fun collect_updates ::
  "(string \<times> (string \<times> string) list) list \<Rightarrow> (string \<times> string) list \<Rightarrow> string list
     \<Rightarrow> (string \<times> file_pair) list \<Rightarrow> (string \<times> file_pair) list" where
  "collect_updates table initial [] updates = updates"
| "collect_updates table initial (f # rest) updates =
     (case map_of table f of
        None \<Rightarrow> collect_updates table initial rest updates
      | Some fileUpdates \<Rightarrow>
          collect_updates table initial rest (add_updates initial fileUpdates updates))"

text \<open>The commits to the new branch; the first failure ends the loop.\<close>

fun commit_updates ::
  "platform \<Rightarrow> config \<Rightarrow> (string \<times> file_pair) list \<Rightarrow> string \<Rightarrow> server
     \<Rightarrow> (string + unit) \<times> server" where
  "commit_updates pf cfg [] branchName w = (Inr (), w)"
| "commit_updates pf cfg ((docPath, p) # rest) branchName w =
     (case commitFile pf (DOCS_REPO_OWNER cfg) (DOCS_REPO cfg) docPath (after_text p)
             (''docs: update '' @ docPath) branchName w of
        (Inl e, w') \<Rightarrow> (Inl e, w')
      | (Inr u, w') \<Rightarrow> commit_updates pf cfg rest branchName w')"

definition update_pr_body :: "string list \<Rightarrow> string" where
  "update_pr_body paths =
     ''## Automated Documentation Update\<newline>\<newline>'' @
     ''This PR was automatically generated based on code changes.\<newline>\<newline>'' @
     ''### Files Updated\<newline>'' @
     join (map (\<lambda>f. ''- `'' @ f @ ''`'') paths) ''\<newline>'' @
     ''\<newline>\<newline>---\<newline>Generated by Oqoqo Demo''"

text \<open>
  \<^verbatim>\<open>handleMediumAccess\<close>. The result is \<open>Inl message\<close> when the promise is rejected,
  \<open>Inr None\<close> for \<^verbatim>\<open>null\<close> and \<open>Inr (Some review)\<close> for the stored review.
\<close>

definition handleMediumAccess ::
  "platform \<Rightarrow> config \<Rightarrow> string list \<Rightarrow> server \<Rightarrow> (string + Review option) \<times> server" where
  "handleMediumAccess pf cfg changedFiles w =
     (let w0 = broadcast pf (ANALYZING_CHANGES changedFiles) w;
          updates = collect_updates UPDATE_MAPPINGS INITIAL_DOCS changedFiles []
      in if updates = [] then (Inr None, broadcast pf NO_UPDATES_NEEDED w0)
         else
           (case read_clock pf w0 of
              (t, w1) \<Rightarrow>
                (let branchName = ''docs-update-'' @ show_nat t in
                 case git_getRef pf (DOCS_REPO_OWNER cfg) (DOCS_REPO cfg) ''heads/main'' w1 of
                   (Inl e, w2) \<Rightarrow> (Inl e, w2)
                 | (Inr sha, w2) \<Rightarrow>
                 (case git_createRef pf (DOCS_REPO_OWNER cfg) (DOCS_REPO cfg)
                         (''refs/heads/'' @ branchName) sha w2 of
                   (Inl e, w3) \<Rightarrow> (Inl e, w3)
                 | (Inr u, w3) \<Rightarrow>
                 (case commit_updates pf cfg updates branchName
                         (broadcast pf (BRANCH_CREATED branchName) w3) of
                   (Inl e, w4) \<Rightarrow> (Inl e, w4)
                 | (Inr u, w4) \<Rightarrow>
                 (case pulls_create pf (DOCS_REPO_OWNER cfg) (DOCS_REPO cfg)
                         ''docs: update documentation based on code changes''
                         branchName ''main'' (update_pr_body (map fst updates)) w4 of
                   (Inl e, w5) \<Rightarrow> (Inl e, w5)
                 | (Inr pr, w5) \<Rightarrow>
                 (case read_clock pf (broadcast pf (PR_CREATED (number pr) (html_url pr)) w5) of
                   (t', w6) \<Rightarrow>
                     (let review =
                            \<lparr>id_review = reviewIdCounter w6,
                             prNumber = Some (number pr),
                             prUrl = Some (html_url pr),
                             branch = Some branchName,
                             files = updates,
                             status = pending,
                             createdAt = toISOString pf t'\<rparr>
                      in (Inr (Some review),
                          w6\<lparr>reviewIdCounter := reviewIdCounter w6 + 1,
                             pendingReviews :=
                               AList.update (id_review review) review (pendingReviews w6)\<rparr>)))))))))"

section \<open>The review routes\<close>

text \<open>
  A response is its status code and its JSON body. \<^verbatim>\<open>res.json\<close> without a status is 200.
\<close>

datatype body =
    ErrorBody string
  | SuccessBody
  | MergedBody
  | ReviewsBody "Review list"
  | FixBody nat string nat nat

datatype response = Response nat body

fun status_code :: "response \<Rightarrow> nat" where
  "status_code (Response c b) = c"

text \<open>\<^verbatim>\<open>GET /reviews\<close>: the pending reviews, in the order of the map.\<close>

definition get_reviews :: "server \<Rightarrow> response" where
  "get_reviews w =
     Response 200 (ReviewsBody (filter (\<lambda>r. status r = pending) (map snd (pendingReviews w))))"

text \<open>
  \<^verbatim>\<open>POST /reviews/:id/approve\<close>, behind the admin guard. \<open>rid\<close> is what \<^verbatim>\<open>parseInt\<close> made of
  the path parameter, \<open>None\<close> for \<^verbatim>\<open>NaN\<close>, which is no key of the map. \<^verbatim>\<open>!review.prNumber\<close>
  holds for a missing number and for 0. A failed branch deletion is swallowed; a
  review without branch prints as \<^verbatim>\<open>undefined\<close> in the ref.
\<close>

definition post_reviews_approve ::
  "platform \<Rightarrow> config \<Rightarrow> string option \<Rightarrow> int option \<Rightarrow> server \<Rightarrow> response \<times> server" where
  "post_reviews_approve pf cfg authHeader rid w =
     (case requireAdmin cfg authHeader of
        Unauthorized \<Rightarrow> (Response 401 (ErrorBody ''Unauthorized''), w)
      | Next \<Rightarrow>
          (case (case rid of None \<Rightarrow> None | Some k \<Rightarrow> map_of (pendingReviews w) k) of
             None \<Rightarrow> (Response 404 (ErrorBody ''Review not found''), w)
           | Some review \<Rightarrow>
               (case prNumber review of
                  None \<Rightarrow> (Response 400 (ErrorBody ''No PR associated with this review''), w)
                | Some n \<Rightarrow>
                    if n = 0 then
                      (Response 400 (ErrorBody ''No PR associated with this review''), w)
                    else
                      (case pulls_merge pf (DOCS_REPO_OWNER cfg) (DOCS_REPO cfg) n ''squash'' w of
                         (Inl e, w1) \<Rightarrow> (Response 500 (ErrorBody e), w1)
                       | (Inr u, w1) \<Rightarrow>
                           (case git_deleteRef pf (DOCS_REPO_OWNER cfg) (DOCS_REPO cfg)
                                   (''heads/'' @ (case branch review of
                                                    None \<Rightarrow> ''undefined'' | Some b \<Rightarrow> b))
                                   (broadcast pf (PR_MERGED n) w1) of
                              (d, w2) \<Rightarrow>
                                (Response 200 MergedBody,
                                 broadcast pf DEPLOYMENT_STARTED
                                   (w2\<lparr>pendingReviews :=
                                         map (\<lambda>(k, r). if Some k = rid
                                                         then (k, r\<lparr>status := merged\<rparr>)
                                                         else (k, r))
                                           (pendingReviews w2)\<rparr>)))))))"

section \<open>\<^verbatim>\<open>POST /reset\<close>\<close>

fun close_pulls :: "platform \<Rightarrow> config \<Rightarrow> pull list \<Rightarrow> server \<Rightarrow> (string + unit) \<times> server" where
  "close_pulls pf cfg [] w = (Inr (), w)"
| "close_pulls pf cfg (pr # prs) w =
     (case pulls_update pf (DOCS_REPO_OWNER cfg) (DOCS_REPO cfg) (number pr) ''closed'' w of
        (Inl e, w') \<Rightarrow> (Inl e, w')
      | (Inr u, w') \<Rightarrow> close_pulls pf cfg prs (broadcast pf (PR_CLOSED (number pr)) w'))"

fun reset_docs ::
  "platform \<Rightarrow> config \<Rightarrow> (string \<times> string) list \<Rightarrow> server \<Rightarrow> (string + unit) \<times> server" where
  "reset_docs pf cfg [] w = (Inr (), w)"
| "reset_docs pf cfg ((path, text) # rest) w =
     (case commitFile pf (DOCS_REPO_OWNER cfg) (DOCS_REPO cfg) path text
             ''chore: reset to initial state'' ''main'' w of
        (Inl e, w') \<Rightarrow> (Inl e, w')
      | (Inr u, w') \<Rightarrow> reset_docs pf cfg rest w')"

text \<open>
  The handler: close the open pull requests, commit the initial documents and the
  initial demo code, then empty the map and set the counter back to 1. Any failure
  ends it with a 500 and leaves the map and the counter as they were.
\<close>

definition post_reset ::
  "platform \<Rightarrow> config \<Rightarrow> string option \<Rightarrow> server \<Rightarrow> response \<times> server" where
  "post_reset pf cfg authHeader w =
     (case requireAdmin cfg authHeader of
        Unauthorized \<Rightarrow> (Response 401 (ErrorBody ''Unauthorized''), w)
      | Next \<Rightarrow>
          (case pulls_list pf (DOCS_REPO_OWNER cfg) (DOCS_REPO cfg) ''open''
                  (broadcast pf RESET_STARTED w) of
             (Inl e, w1) \<Rightarrow> (Response 500 (ErrorBody e), w1)
           | (Inr prs, w1) \<Rightarrow>
          (case close_pulls pf cfg prs w1 of
             (Inl e, w2) \<Rightarrow> (Response 500 (ErrorBody e), w2)
           | (Inr u, w2) \<Rightarrow>
          (case reset_docs pf cfg INITIAL_DOCS w2 of
             (Inl e, w3) \<Rightarrow> (Response 500 (ErrorBody e), w3)
           | (Inr u, w3) \<Rightarrow>
          (case commitFile pf (PRODUCT_REPO_OWNER cfg) (PRODUCT_REPO cfg)
                  ''src/routes/users.ts'' DEMO_CODE_BEFORE
                  ''chore: reset to initial state'' ''main'' w3 of
             (Inl e, w4) \<Rightarrow> (Response 500 (ErrorBody e), w4)
           | (Inr u, w4) \<Rightarrow>
               (Response 200 SuccessBody,
                broadcast pf DEMO_RESET
                  (w4\<lparr>pendingReviews := [], reviewIdCounter := 1\<rparr>)))))))"

section \<open>\<^verbatim>\<open>POST /fix-gaps\<close>\<close>

text \<open>
  A JSON value of a request body. \<open>gapIds\<close> below is \<open>None\<close> when the body has no such
  property. (The value of a number plays no role in this handler.)
\<close>

datatype json =
    JNull
  | JBool bool
  | JNumber rat
  | JString string
  | JArray "json list"
  | JObject "(string \<times> json) list"

text \<open>\<^verbatim>\<open>!v\<close> for a property that may be missing, and \<^verbatim>\<open>Array.isArray\<close>.\<close>

fun falsy :: "json option \<Rightarrow> bool" where
  "falsy None = True"
| "falsy (Some JNull) = True"
| "falsy (Some (JBool b)) = (\<not> b)"
| "falsy (Some (JNumber x)) = (x = 0)"
| "falsy (Some (JString s)) = (s = [])"
| "falsy (Some (JArray xs)) = False"
| "falsy (Some (JObject kvs)) = False"

fun isArray :: "json option \<Rightarrow> bool" where
  "isArray (Some (JArray xs)) = True"
| "isArray v = False"

fun elements :: "json option \<Rightarrow> json list" where
  "elements (Some (JArray xs)) = xs"
| "elements v = []"

text \<open>
  \<^verbatim>\<open>PREDETERMINED_GAPS.filter(g => gapIds.includes(g.id))\<close>: a gap's id is a string, so it
  is included when the array holds that string.
\<close>

definition select_gaps :: "json list \<Rightarrow> DocGap list" where
  "select_gaps gapIds = filter (\<lambda>g. JString (id_gap g) \<in> set gapIds) PREDETERMINED_GAPS"

record file_update =
  gaps :: "DocGap list"
  content :: string

text \<open>
  Grouping the gaps by file. The content of a file is fetched when the file has no
  entry yet; \<^verbatim>\<open>!currentContent\<close> holds for \<^verbatim>\<open>null\<close> and for the empty text, and then the gap
  is passed over and the loop goes on with the next gap.
\<close>

fun group_gaps ::
  "platform \<Rightarrow> config \<Rightarrow> DocGap list \<Rightarrow> (string \<times> file_update) list \<Rightarrow> server
     \<Rightarrow> (string \<times> file_update) list \<times> server" where
  "group_gaps pf cfg [] fileUpdates w = (fileUpdates, w)"
| "group_gaps pf cfg (gap # rest) fileUpdates w =
     (let filePath = file_fix (suggested_fix gap) in
      case map_of fileUpdates filePath of
        Some u \<Rightarrow>
          group_gaps pf cfg rest
            (AList.update filePath (u\<lparr>gaps := gaps u @ [gap]\<rparr>) fileUpdates) w
      | None \<Rightarrow>
          (case getFileContent pf (DOCS_REPO_OWNER cfg) (DOCS_REPO cfg) filePath ''main'' w of
             (None, w') \<Rightarrow> group_gaps pf cfg rest fileUpdates w'
           | (Some currentContent, w') \<Rightarrow>
               if currentContent = [] then group_gaps pf cfg rest fileUpdates w'
               else
                 group_gaps pf cfg rest
                   (AList.update filePath \<lparr>gaps = [gap], content = currentContent\<rparr> fileUpdates)
                   w'))"

text \<open>Applying the fixes of each file in turn to its content.\<close>

definition apply_fixes :: "(string \<times> file_update) list \<Rightarrow> (string \<times> file_update) list" where
  "apply_fixes fileUpdates =
     map (\<lambda>(filePath, u).
            (filePath,
             u\<lparr>content :=
                  foldl (\<lambda>updatedContent gap.
                           replace updatedContent (before (suggested_fix gap))
                             (after (suggested_fix gap)))
                    (content u) (gaps u)\<rparr>))
       fileUpdates"

fun commit_fixes ::
  "platform \<Rightarrow> config \<Rightarrow> (string \<times> file_update) list \<Rightarrow> string \<Rightarrow> server
     \<Rightarrow> (string + unit) \<times> server" where
  "commit_fixes pf cfg [] branchName w = (Inr (), w)"
| "commit_fixes pf cfg ((filePath, u) # rest) branchName w =
     (case commitFile pf (DOCS_REPO_OWNER cfg) (DOCS_REPO cfg) filePath (content u)
             (''docs: fix '' @ filePath @ '' - address documentation gaps'') branchName w of
        (Inl e, w') \<Rightarrow> (Inl e, w')
      | (Inr x, w') \<Rightarrow>
          commit_fixes pf cfg rest branchName (broadcast pf (FILE_COMMITTED filePath) w'))"

definition plural :: "nat \<Rightarrow> string" where
  "plural n = (if n > 1 then ''s'' else [])"

definition fix_pr_title :: "DocGap list \<Rightarrow> string" where
  "fix_pr_title selectedGaps =
     ''docs: fix '' @ show_nat (length selectedGaps) @ '' documentation gap''
       @ plural (length selectedGaps)"

definition fix_pr_body :: "DocGap list \<Rightarrow> string list \<Rightarrow> string" where
  "fix_pr_body selectedGaps paths =
     ''## Documentation Gap Fixes\<newline>\<newline>'' @
     ''This PR addresses '' @ show_nat (length selectedGaps) @ '' documentation gap''
       @ plural (length selectedGaps) @ '' identified by the doc analyzer.\<newline>\<newline>'' @
     ''### Gaps Fixed\<newline>'' @
     join (map (\<lambda>g. ''- **'' @ gap_type_name (gap_type g) @ ''** (''
                      @ severity_name (severity g) @ ''): '' @ description g) selectedGaps)
       ''\<newline>'' @
     ''\<newline>\<newline>### Files Updated\<newline>'' @
     join (map (\<lambda>f. ''- `'' @ f @ ''`'') paths) ''\<newline>'' @
     ''\<newline>\<newline>---\<newline>Generated by Oqoqo Doc Analyzer''"

text \<open>The body of the \<^verbatim>\<open>try\<close> block: \<open>Inl message\<close> is the error the \<^verbatim>\<open>catch\<close> receives.\<close>

definition fix_gaps_try ::
  "platform \<Rightarrow> config \<Rightarrow> DocGap list \<Rightarrow> server \<Rightarrow> (string + body) \<times> server" where
  "fix_gaps_try pf cfg selectedGaps w =
     (case group_gaps pf cfg selectedGaps [] w of
        (grouped, w0) \<Rightarrow>
          (let fileUpdates = apply_fixes grouped in
           case read_clock pf w0 of
             (t, w1) \<Rightarrow>
               (let branchName = ''docs-fix-gaps-'' @ show_nat t in
                case git_getRef pf (DOCS_REPO_OWNER cfg) (DOCS_REPO cfg) ''heads/main'' w1 of
                  (Inl e, w2) \<Rightarrow> (Inl e, w2)
                | (Inr sha, w2) \<Rightarrow>
                (case git_createRef pf (DOCS_REPO_OWNER cfg) (DOCS_REPO cfg)
                        (''refs/heads/'' @ branchName) sha w2 of
                  (Inl e, w3) \<Rightarrow> (Inl e, w3)
                | (Inr u, w3) \<Rightarrow>
                (case commit_fixes pf cfg fileUpdates branchName
                        (broadcast pf (BRANCH_CREATED branchName) w3) of
                  (Inl e, w4) \<Rightarrow> (Inl e, w4)
                | (Inr u, w4) \<Rightarrow>
                (case pulls_create pf (DOCS_REPO_OWNER cfg) (DOCS_REPO cfg)
                        (fix_pr_title selectedGaps) branchName ''main''
                        (fix_pr_body selectedGaps (map fst fileUpdates)) w4 of
                  (Inl e, w5) \<Rightarrow> (Inl e, w5)
                | (Inr pr, w5) \<Rightarrow>
                (case read_clock pf (broadcast pf (PR_CREATED (number pr) (html_url pr)) w5) of
                  (t', w6) \<Rightarrow>
                    (let review =
                           \<lparr>id_review = reviewIdCounter w6,
                            prNumber = Some (number pr),
                            prUrl = Some (html_url pr),
                            branch = Some branchName,
                            files = map (\<lambda>(path, u).
                                           (path, \<lparr>before_text = [], after_text = content u\<rparr>))
                                      fileUpdates,
                            status = pending,
                            createdAt = toISOString pf t'\<rparr>
                     in (Inr (FixBody (number pr) (html_url pr) (length selectedGaps)
                                (length fileUpdates)),
                         w6\<lparr>reviewIdCounter := reviewIdCounter w6 + 1,
                            pendingReviews :=
                              AList.update (id_review review) review
                                (pendingReviews w6)\<rparr>)))))))))"

text \<open>The route, behind the admin guard, with its two checks of the request.\<close>

definition post_fix_gaps ::
  "platform \<Rightarrow> config \<Rightarrow> string option \<Rightarrow> json option \<Rightarrow> server \<Rightarrow> response \<times> server" where
  "post_fix_gaps pf cfg authHeader gapIds w =
     (case requireAdmin cfg authHeader of
        Unauthorized \<Rightarrow> (Response 401 (ErrorBody ''Unauthorized''), w)
      | Next \<Rightarrow>
          if falsy gapIds \<or> \<not> isArray gapIds \<or> length (elements gapIds) = 0 then
            (Response 400 (ErrorBody ''gapIds array required''), w)
          else
            (let selectedGaps = select_gaps (elements gapIds) in
             if length selectedGaps = 0 then
               (Response 400 (ErrorBody ''No valid gaps found for provided IDs''), w)
             else
               (case fix_gaps_try pf cfg selectedGaps
                       (broadcast pf (FIX_STARTED (length selectedGaps)) w) of
                  (Inl e, w') \<Rightarrow> (Response 500 (ErrorBody e), broadcast pf (FIX_ERROR e) w')
                | (Inr b, w') \<Rightarrow> (Response 200 b, w'))))"

section \<open>Sequences of operations\<close>

text \<open>
  The operations that reach the review store: the review-mode orchestrator (as
  \<^verbatim>\<open>/webhook\<close> and \<^verbatim>\<open>/trigger\<close> call it), and the routes \<^verbatim>\<open>/fix-gaps\<close>, \<^verbatim>\<open>/reviews/:id/approve\<close>
  and \<^verbatim>\<open>/reset\<close>. Requests are handled one after the other.
\<close>

datatype operation =
    Orchestrate "string list"
  | FixGaps "string option" "json option"
  | Approve "string option" "int option"
  | Reset "string option"

fun step :: "platform \<Rightarrow> config \<Rightarrow> operation \<Rightarrow> server \<Rightarrow> server" where
  "step pf cfg (Orchestrate changedFiles) w = snd (handleMediumAccess pf cfg changedFiles w)"
| "step pf cfg (FixGaps authHeader gapIds) w = snd (post_fix_gaps pf cfg authHeader gapIds w)"
| "step pf cfg (Approve authHeader rid) w = snd (post_reviews_approve pf cfg authHeader rid w)"
| "step pf cfg (Reset authHeader) w = snd (post_reset pf cfg authHeader w)"

text \<open>The ids of the reviews a step put into the store: the keys that were not there before.\<close>

definition created_ids :: "server \<Rightarrow> server \<Rightarrow> int list" where
  "created_ids w w' =
     filter (\<lambda>k. k \<notin> set (map fst (pendingReviews w))) (map fst (pendingReviews w'))"


fun run :: "platform \<Rightarrow> config \<Rightarrow> operation list \<Rightarrow> server \<Rightarrow> server" where
  "run pf cfg [] w = w"
| "run pf cfg (op # ops) w = run pf cfg ops (step pf cfg op w)"

section \<open>Notions used in the properties\<close>

text \<open>
  The platform accepts every call whose failure a handler does not catch itself
  (reading a file and deleting a branch are wrapped in \<^verbatim>\<open>try\<close>/\<^verbatim>\<open>catch\<close> by the source).
\<close>

definition platform_succeeds :: "platform \<Rightarrow> bool" where
  "platform_succeeds pf =
     (\<forall>h. \<not> isl (createOrUpdateFileContents_reply pf h) \<and>
          \<not> isl (getRef_reply pf h) \<and>
          \<not> isl (createRef_reply pf h) \<and>
          \<not> isl (pulls_create_reply pf h) \<and>
          \<not> isl (pulls_merge_reply pf h) \<and>
          \<not> isl (pulls_list_reply pf h) \<and>
          \<not> isl (pulls_update_reply pf h))"

text \<open>
  Between the call logs \<open>cs\<close> and \<open>cs'\<close> the text was committed to the path on the branch:
  the commit was issued after \<open>cs\<close> and the platform accepted it.
\<close>

definition committed ::
  "platform \<Rightarrow> call list \<Rightarrow> call list \<Rightarrow> string \<Rightarrow> string \<Rightarrow> string \<Rightarrow> string \<Rightarrow> string \<Rightarrow> bool" where
  "committed pf cs cs' owner repo path text br =
     (\<exists>pre post message sha.
        cs' = pre @ [CreateOrUpdateFileContents owner repo path message text sha br] @ post \<and>
        length cs \<le> length pre \<and>
        createOrUpdateFileContents_reply pf
          (pre @ [CreateOrUpdateFileContents owner repo path message text sha br]) = Inr ())"

text \<open>Every key of the review store lies below the counter, as it does from the start.\<close>

definition ids_below_counter :: "server \<Rightarrow> bool" where
  "ids_below_counter w = (\<forall>k \<in> set (map fst (pendingReviews w)). k < reviewIdCounter w)"


text \<open>
  A platform for the examples: every call succeeds, no pull request is open, and the
  clock advances by one millisecond per reading.
\<close>

definition demo_platform :: platform where
  "demo_platform =
     \<lparr>getContent_reply = (\<lambda>h. Inr \<lparr>data_sha = Some ''3b18e512'', data_content = Some ''# Docs''\<rparr>),
      createOrUpdateFileContents_reply = (\<lambda>h. Inr ()),
      getRef_reply = (\<lambda>h. Inr ''9fceb02d''),
      createRef_reply = (\<lambda>h. Inr ()),
      deleteRef_reply = (\<lambda>h. Inr ()),
      pulls_create_reply =
        (\<lambda>h. Inr \<lparr>number = 7, html_url = ''https://github.com/haritha1313/oqoqo-demo-docs/pull/7''\<rparr>),
      pulls_merge_reply = (\<lambda>h. Inr ()),
      pulls_list_reply = (\<lambda>h. Inr []),
      pulls_update_reply = (\<lambda>h. Inr ()),
      Date_now = (\<lambda>n. 1700000000000 + n),
      toISOString = show_nat\<rparr>"


text \<open>A gap whose replacement text holds a dollar pattern.\<close>

definition price_gap :: DocGap where
  "price_gap =
     \<lparr>id_gap = ''gap_price'', gap_type = STALENESS, severity = low,
      doc_file = ''docs/pricing.md'',
      description = ''Price differs between documentation and implementation'',
      evidence = None,
      suggested_fix = \<lparr>file_fix = ''docs/pricing.md'', before = ''X'', after = ''$$5''\<rparr>\<rparr>"

text \<open>A review that has no pull request.\<close>

definition orphan_review :: Review where
  "orphan_review =
     \<lparr>id_review = 1, prNumber = None, prUrl = None, branch = None,
      files = [(''docs/how-to-guide.md'', \<lparr>before_text = [], after_text = ''# Guide''\<rparr>)],
      status = pending, createdAt = ''2024-01-20T14:22:00.000Z''\<rparr>"

text \<open>The documentation paths the table maps some changed file to.\<close>

definition mapped_docs :: "string list \<Rightarrow> string set" where
  "mapped_docs changedFiles =
     {d. \<exists>f \<in> set changedFiles. \<exists>fileUpdates.
           map_of UPDATE_MAPPINGS f = Some fileUpdates \<and> d \<in> fst ` set fileUpdates}"

text \<open>The two file entries of a review for \<^verbatim>\<open>src/routes/users.ts\<close>.\<close>

definition users_updates :: "(string \<times> file_pair) list" where
  "users_updates =
     [(''docs/getting-started.md'',
       \<lparr>before_text = INITIAL_getting_started, after_text = UPDATE_getting_started\<rparr>),
      (''docs/how-to-guide.md'',
       \<lparr>before_text = INITIAL_how_to_guide, after_text = UPDATE_how_to_guide\<rparr>)]"

text \<open>A JSON value that is the id of a gap of the static list.\<close>

definition known_id :: "json \<Rightarrow> bool" where
  "known_id x = (x \<in> set (map (\<lambda>g. JString (id_gap g)) PREDETERMINED_GAPS))"


section \<open>Basic facts\<close>

subsection \<open>Searching and replacing\<close>

lemma startsWith_iff: "startsWith s p \<longleftrightarrow> (\<exists>post. s = p @ post)"
  by (induction s p rule: startsWith.induct) auto

text \<open>\<open>indexOf\<close> finds an occurrence, and no occurrence starts before it.\<close>

lemma indexOf_Some:
  "indexOf s p = Some i \<Longrightarrow>
     (\<exists>post. s = take i s @ p @ post) \<and> i \<le> length s \<and>
     (\<forall>pre' post'. s = pre' @ p @ post' \<longrightarrow> i \<le> length pre')"
proof (induction s arbitrary: i)
  case Nil
  then show ?case by (auto split: if_splits)
next
  case (Cons c cs)
  show ?case
  proof (cases "startsWith (c # cs) p")
    case True
    with Cons.prems show ?thesis by (auto simp: startsWith_iff)
  next
    case False
    with Cons.prems obtain j where j: "indexOf cs p = Some j" "i = Suc j" by auto
    from Cons.IH[OF j(1)] obtain post where
      post: "cs = take j cs @ p @ post" and le: "j \<le> length cs"
      and first: "\<forall>pre' post'. cs = pre' @ p @ post' \<longrightarrow> j \<le> length pre'" by blast
    have "c # cs = take i (c # cs) @ p @ post" using post j(2) by simp
    moreover have "i \<le> length (c # cs)" using le j(2) by simp
    moreover have "\<forall>pre' post'. c # cs = pre' @ p @ post' \<longrightarrow> i \<le> length pre'"
    proof (intro allI impI)
      fix pre' post' assume eq: "c # cs = pre' @ p @ post'"
      show "i \<le> length pre'"
      proof (cases pre')
        case Nil
        with eq False show ?thesis by (simp add: startsWith_iff)
      next
        case (Cons a as)
        with eq have "cs = as @ p @ post'" by simp
        with first have "j \<le> length as" by blast
        with Cons j(2) show ?thesis by simp
      qed
    qed
    ultimately show ?thesis by blast
  qed
qed

lemma indexOf_None: "indexOf s p = None \<Longrightarrow> s \<noteq> pre @ p @ post"
proof (induction s arbitrary: pre)
  case Nil
  then show ?case by (auto split: if_splits)
next
  case (Cons c cs)
  from Cons.prems have ns: "\<not> startsWith (c # cs) p" and rest: "indexOf cs p = None"
    by (auto split: if_splits)
  show ?case
  proof (cases pre)
    case Nil
    with ns show ?thesis by (auto simp: startsWith_iff)
  next
    case (Cons a as)
    with Cons.IH[OF rest, of as] show ?thesis by auto
  qed
qed

text \<open>A replacement text without a dollar pattern is substituted as it stands.\<close>

lemma GetSubstitution_plain:
  "\<not> dollar_pattern r \<Longrightarrow> GetSubstitution m pre post r = r"
  by (induction m pre post r rule: GetSubstitution.induct) auto

lemma no_dollar_no_pattern: "CHR 0x24 \<notin> set r \<Longrightarrow> \<not> dollar_pattern r"
  by (induction r rule: dollar_pattern.induct) auto

lemma replace_absent: "(\<nexists>pre post. s = pre @ p @ post) \<Longrightarrow> replace s p r = s"
  by (cases "indexOf s p") (auto simp: replace_def dest: indexOf_Some)

lemma replace_first:
  assumes "\<not> dollar_pattern r" and "s = pre @ p @ post"
    and "\<forall>pre' post'. s = pre' @ p @ post' \<longrightarrow> length pre \<le> length pre'"
  shows "replace s p r = pre @ r @ post"
proof (cases "indexOf s p")
  case None
  with indexOf_None[OF None, of pre post] assms(2) show ?thesis by simp
next
  case (Some i)
  from indexOf_Some[OF Some] obtain post0 where
    s0: "s = take i s @ p @ post0" and "i \<le> length s"
    and first: "\<forall>pre' post'. s = pre' @ p @ post' \<longrightarrow> i \<le> length pre'" by blast
  have "i \<le> length pre" using first assms(2) by blast
  moreover have "length pre \<le> i" using assms(3) s0 \<open>i \<le> length s\<close>
    by (metis length_take min.absorb2)
  ultimately have i: "i = length pre" by simp
  have "take i s = pre" "drop (i + length p) s = post"
    using assms(2) i by simp_all
  with Some assms(1) show ?thesis
    by (simp add: replace_def Let_def GetSubstitution_plain)
qed

text \<open>No replacement text of the static gap list holds a dollar sign.\<close>

lemma static_gaps_no_dollar:
  "\<forall>g \<in> set PREDETERMINED_GAPS. CHR 0x24 \<notin> set (after (suggested_fix g))"
  by (simp add: PREDETERMINED_GAPS_def gap_001_after_def gap_002_after_def
      gap_003_after_def gap_004_after_def gap_005_after_def)

subsection \<open>What the helpers leave alone\<close>

lemmas api_defs = repos_getContent_def repos_createOrUpdateFileContents_def git_getRef_def
  git_createRef_def git_deleteRef_def pulls_create_def pulls_merge_def pulls_list_def
  pulls_update_def issue_def Let_def

lemma broadcast_fields [simp]:
  "pendingReviews (broadcast pf e w) = pendingReviews w"
  "reviewIdCounter (broadcast pf e w) = reviewIdCounter w"
  "accessLevel (broadcast pf e w) = accessLevel w"
  "calls (broadcast pf e w) = calls w"
  "clock_reads (broadcast pf e w) = Suc (clock_reads w)"
  "map fst (broadcasts (broadcast pf e w)) = map fst (broadcasts w) @ [e]"
  by (simp_all add: broadcast_def read_clock_def)

lemma read_clock_fields:
  "read_clock pf w = (t, w') \<Longrightarrow>
     pendingReviews w' = pendingReviews w \<and> reviewIdCounter w' = reviewIdCounter w \<and>
     calls w' = calls w \<and> broadcasts w' = broadcasts w \<and> accessLevel w' = accessLevel w"
  by (auto simp: read_clock_def)

lemma commitFile_calls:
  "commitFile pf owner repo path text message br w = (x, w') \<Longrightarrow>
     \<exists>sha. calls w' = calls w @ [GetContent owner repo path br,
                CreateOrUpdateFileContents owner repo path message text sha br] \<and>
           x = createOrUpdateFileContents_reply pf (calls w')"
  by (auto simp: commitFile_def getFileSha_def api_defs split: prod.splits sum.splits)

lemma commitFile_frame:
  "commitFile pf owner repo path text message br w = (x, w') \<Longrightarrow>
     pendingReviews w' = pendingReviews w \<and> reviewIdCounter w' = reviewIdCounter w \<and>
     broadcasts w' = broadcasts w"
  by (auto simp: commitFile_def getFileSha_def api_defs split: prod.splits sum.splits)

lemma succeeds_simps:
  assumes "platform_succeeds pf"
  shows "createOrUpdateFileContents_reply pf h \<noteq> Inl e"
    and "getRef_reply pf h \<noteq> Inl e"
    and "createRef_reply pf h \<noteq> Inl e"
    and "pulls_create_reply pf h \<noteq> Inl e"
    and "pulls_merge_reply pf h \<noteq> Inl e"
    and "pulls_list_reply pf h \<noteq> Inl e"
    and "pulls_update_reply pf h \<noteq> Inl e"
  using assms unfolding platform_succeeds_def by (metis sum.disc(1))+

lemmas ok_simps = succeeds_simps succeeds_simps [THEN not_sym]

lemma commitFile_ok:
  "platform_succeeds pf \<Longrightarrow> commitFile pf owner repo path text message br w \<noteq> (Inl e, w')"
  by (auto dest!: commitFile_calls simp: ok_simps)

lemma demo_platform_succeeds: "platform_succeeds demo_platform"
  by (simp add: platform_succeeds_def demo_platform_def)

subsection \<open>The review-mode orchestrator\<close>

lemma commit_updates_frame:
  "commit_updates pf cfg us b w = (x, w') \<Longrightarrow>
     pendingReviews w' = pendingReviews w \<and> reviewIdCounter w' = reviewIdCounter w"
  by (induction pf cfg us b w rule: commit_updates.induct)
     (auto split: prod.splits sum.splits dest: commitFile_frame)

lemma commit_updates_ok:
  "platform_succeeds pf \<Longrightarrow> commit_updates pf cfg us b w \<noteq> (Inl e, w')"
  by (induction pf cfg us b w rule: commit_updates.induct)
     (auto split: prod.splits sum.splits simp: commitFile_ok)

lemma add_updates_keys:
  "fst ` set (add_updates initial ups us) = fst ` set us \<union> fst ` set ups"
  by (induction initial ups us rule: add_updates.induct) (auto simp: dom_update)

lemma add_updates_distinct:
  "distinct (map fst us) \<Longrightarrow> distinct (map fst (add_updates initial ups us))"
  by (induction initial ups us rule: add_updates.induct) (auto simp: distinct_update)

lemma collect_updates_keys:
  "fst ` set (collect_updates table initial fs us) =
     fst ` set us \<union>
     {d. \<exists>f \<in> set fs. \<exists>ups. map_of table f = Some ups \<and> d \<in> fst ` set ups}"
proof (induction fs arbitrary: us)
  case Nil
  then show ?case by simp
next
  case (Cons f fs)
  show ?case
  proof (cases "map_of table f")
    case None
    then show ?thesis using Cons.IH[of us] by auto
  next
    case (Some ups)
    then show ?thesis using Cons.IH[of "add_updates initial ups us"]
      by (auto simp: add_updates_keys)
  qed
qed

lemma collect_updates_distinct:
  "distinct (map fst us) \<Longrightarrow> distinct (map fst (collect_updates table initial fs us))"
  by (induction fs arbitrary: us) (auto simp: add_updates_distinct split: option.splits)

lemma map_of_UPDATE_MAPPINGS:
  "map_of UPDATE_MAPPINGS f =
     (if f = ''src/routes/users.ts''
      then Some [(''docs/getting-started.md'', UPDATE_getting_started),
                 (''docs/how-to-guide.md'', UPDATE_how_to_guide)]
      else None)"
  by (simp add: UPDATE_MAPPINGS_def)

lemma add_updates_users:
  "add_updates INITIAL_DOCS
     [(''docs/getting-started.md'', UPDATE_getting_started),
      (''docs/how-to-guide.md'', UPDATE_how_to_guide)] [] = users_updates"
  "add_updates INITIAL_DOCS
     [(''docs/getting-started.md'', UPDATE_getting_started),
      (''docs/how-to-guide.md'', UPDATE_how_to_guide)] users_updates = users_updates"
  by (simp_all add: INITIAL_DOCS_def users_updates_def)

lemma collect_updates_users_full:
  "collect_updates UPDATE_MAPPINGS INITIAL_DOCS fs users_updates = users_updates"
  by (induction fs)
     (simp_all add: map_of_UPDATE_MAPPINGS add_updates_users del: add_updates.simps)

lemma collect_updates_users:
  "collect_updates UPDATE_MAPPINGS INITIAL_DOCS fs [] =
     (if ''src/routes/users.ts'' \<in> set fs then users_updates else [])"
  by (induction fs)
     (simp_all add: map_of_UPDATE_MAPPINGS add_updates_users collect_updates_users_full
        del: add_updates.simps)

lemma handleMediumAccess_cases:
  assumes "handleMediumAccess pf cfg changedFiles w = (r, w')"
  shows "case r of
           Inr (Some review) \<Rightarrow>
             pendingReviews w' = AList.update (reviewIdCounter w) review (pendingReviews w) \<and>
             reviewIdCounter w' = reviewIdCounter w + 1 \<and>
             id_review review = reviewIdCounter w \<and>
             files review = collect_updates UPDATE_MAPPINGS INITIAL_DOCS changedFiles [] \<and>
             files review \<noteq> [] \<and>
             status review = pending \<and>
             prNumber review \<noteq> None
         | _ \<Rightarrow> pendingReviews w' = pendingReviews w \<and> reviewIdCounter w' = reviewIdCounter w"
  using assms
  by (auto simp: handleMediumAccess_def api_defs read_clock_def
      split: if_splits prod.splits sum.splits dest!: commit_updates_frame)

lemma handleMediumAccess_ok:
  assumes "platform_succeeds pf"
    and "collect_updates UPDATE_MAPPINGS INITIAL_DOCS changedFiles [] \<noteq> []"
  shows "\<exists>review. fst (handleMediumAccess pf cfg changedFiles w) = Inr (Some review)"
  using assms
  by (auto simp: handleMediumAccess_def api_defs read_clock_def ok_simps commit_updates_ok
      split: prod.splits sum.splits)


lemma created_ids_update:
  assumes "k \<notin> fst ` set (pendingReviews w)"
    and "pendingReviews w' = AList.update k v (pendingReviews w)"
  shows "created_ids w w' = [k]"
proof -
  have "filter (\<lambda>k'. k' \<notin> fst ` set (pendingReviews w)) (map fst (pendingReviews w)) = []"
    by (simp add: filter_empty_conv)
  with assms show ?thesis by (simp add: created_ids_def update_keys)
qed


subsection \<open>The review store under the operations\<close>

lemma getFileContent_frame:
  "getFileContent pf owner repo path ref w = (x, w') \<Longrightarrow>
     pendingReviews w' = pendingReviews w \<and> reviewIdCounter w' = reviewIdCounter w"
  by (auto simp: getFileContent_def api_defs split: prod.splits sum.splits)

lemma group_gaps_frame:
  "group_gaps pf cfg gs fu w = (x, w') \<Longrightarrow>
     pendingReviews w' = pendingReviews w \<and> reviewIdCounter w' = reviewIdCounter w"
proof (induction pf cfg gs fu w rule: group_gaps.induct)
  case (1 pf cfg fileUpdates w)
  then show ?case by simp
next
  case (2 pf cfg gap rest fileUpdates w)
  then show ?case
    by (auto simp: Let_def split: option.splits prod.splits if_splits
        dest!: getFileContent_frame)
qed

lemma commit_fixes_frame:
  "commit_fixes pf cfg fu b w = (x, w') \<Longrightarrow>
     pendingReviews w' = pendingReviews w \<and> reviewIdCounter w' = reviewIdCounter w"
  by (induction pf cfg fu b w rule: commit_fixes.induct)
     (auto split: prod.splits sum.splits dest!: commitFile_frame)


lemma group_gaps_snd [simp]:
  "pendingReviews (snd (group_gaps pf cfg gs fu w)) = pendingReviews w"
  "reviewIdCounter (snd (group_gaps pf cfg gs fu w)) = reviewIdCounter w"
  using group_gaps_frame [of pf cfg gs fu w "fst (group_gaps pf cfg gs fu w)"
      "snd (group_gaps pf cfg gs fu w)"]
  by simp_all

lemma commit_fixes_snd [simp]:
  "pendingReviews (snd (commit_fixes pf cfg fu b w)) = pendingReviews w"
  "reviewIdCounter (snd (commit_fixes pf cfg fu b w)) = reviewIdCounter w"
  using commit_fixes_frame [of pf cfg fu b w "fst (commit_fixes pf cfg fu b w)"
      "snd (commit_fixes pf cfg fu b w)"]
  by simp_all

lemma update_eq_iff [simp]: "(AList.update k v al = AList.update k v' al) = (v = v')"
  by (auto dest: update_eqD)




lemma commit_updates_snd [simp]:
  "pendingReviews (snd (commit_updates pf cfg us b w)) = pendingReviews w"
  "reviewIdCounter (snd (commit_updates pf cfg us b w)) = reviewIdCounter w"
  using commit_updates_frame [of pf cfg us b w "fst (commit_updates pf cfg us b w)"
      "snd (commit_updates pf cfg us b w)"]
  by simp_all

lemma commitFile_snd [simp]:
  "pendingReviews (snd (commitFile pf owner repo path t message br w)) = pendingReviews w"
  "reviewIdCounter (snd (commitFile pf owner repo path t message br w)) = reviewIdCounter w"
  using commitFile_frame [of pf owner repo path t message br w
      "fst (commitFile pf owner repo path t message br w)"
      "snd (commitFile pf owner repo path t message br w)"]
  by simp_all

lemma close_pulls_frame:
  "close_pulls pf cfg prs w = (x, w') \<Longrightarrow>
     pendingReviews w' = pendingReviews w \<and> reviewIdCounter w' = reviewIdCounter w"
  by (induction pf cfg prs w rule: close_pulls.induct)
     (auto simp: api_defs split: prod.splits sum.splits)

lemma close_pulls_snd [simp]:
  "pendingReviews (snd (close_pulls pf cfg prs w)) = pendingReviews w"
  "reviewIdCounter (snd (close_pulls pf cfg prs w)) = reviewIdCounter w"
  using close_pulls_frame [of pf cfg prs w "fst (close_pulls pf cfg prs w)"
      "snd (close_pulls pf cfg prs w)"]
  by simp_all

lemma reset_docs_frame:
  "reset_docs pf cfg docs w = (x, w') \<Longrightarrow>
     pendingReviews w' = pendingReviews w \<and> reviewIdCounter w' = reviewIdCounter w"
  by (induction pf cfg docs w rule: reset_docs.induct)
     (auto split: prod.splits sum.splits dest!: commitFile_frame)

lemma reset_docs_snd [simp]:
  "pendingReviews (snd (reset_docs pf cfg docs w)) = pendingReviews w"
  "reviewIdCounter (snd (reset_docs pf cfg docs w)) = reviewIdCounter w"
  using reset_docs_frame [of pf cfg docs w "fst (reset_docs pf cfg docs w)"
      "snd (reset_docs pf cfg docs w)"]
  by simp_all

lemma fst_not_Inl: "(\<And>e w'. f \<noteq> (Inl e, w')) \<Longrightarrow> fst f = Inr ()"
  by (cases f; cases "fst f") auto

lemma close_pulls_ok':
  "platform_succeeds pf \<Longrightarrow> close_pulls pf cfg prs w \<noteq> (Inl e, w')"
  by (induction pf cfg prs w rule: close_pulls.induct)
     (auto simp: api_defs ok_simps split: prod.splits sum.splits)

lemma close_pulls_ok:
  "platform_succeeds pf \<Longrightarrow> fst (close_pulls pf cfg prs w) = Inr ()"
  by (rule fst_not_Inl) (rule close_pulls_ok')

lemma commitFile_ok_fst:
  "platform_succeeds pf \<Longrightarrow> fst (commitFile pf owner repo path t message br w) = Inr ()"
  by (rule fst_not_Inl) (rule commitFile_ok)

lemma reset_docs_ok':
  "platform_succeeds pf \<Longrightarrow> reset_docs pf cfg docs w \<noteq> (Inl e, w')"
  by (induction pf cfg docs w rule: reset_docs.induct)
     (auto simp: commitFile_ok split: prod.splits sum.splits)

lemma reset_docs_ok:
  "platform_succeeds pf \<Longrightarrow> fst (reset_docs pf cfg docs w) = Inr ()"
  by (rule fst_not_Inl) (rule reset_docs_ok')

lemma post_reset_store:
  "(status_code (fst (post_reset pf cfg authHeader w)) = 200 \<and>
      pendingReviews (snd (post_reset pf cfg authHeader w)) = [] \<and>
      reviewIdCounter (snd (post_reset pf cfg authHeader w)) = 1) \<or>
   (status_code (fst (post_reset pf cfg authHeader w)) \<noteq> 200 \<and>
      pendingReviews (snd (post_reset pf cfg authHeader w)) = pendingReviews w \<and>
      reviewIdCounter (snd (post_reset pf cfg authHeader w)) = reviewIdCounter w)"
  by (auto simp: post_reset_def api_defs split_def split: guard.splits sum.splits)

lemma post_reset_ok:
  assumes "platform_succeeds pf" and "requireAdmin cfg authHeader = Next"
  shows "fst (post_reset pf cfg authHeader w) = Response 200 SuccessBody"
  using assms
  by (auto simp: post_reset_def api_defs split_def ok_simps close_pulls_ok reset_docs_ok
      commitFile_ok_fst split: sum.splits)











lemma requireAdmin_default: "requireAdmin (load_config Map.empty) authHeader = Next"
  by (simp add: requireAdmin_def load_config_def env_or_def)

subsection \<open>The selection of gaps\<close>

lemma select_gaps_known: "select_gaps ids = select_gaps (filter known_id ids)"
  unfolding select_gaps_def known_id_def
  by (rule filter_cong) auto

lemma select_gaps_unknown: "\<forall>x \<in> set ids. \<not> known_id x \<Longrightarrow> select_gaps ids = []"
  unfolding select_gaps_def known_id_def by (auto simp: filter_empty_conv)

lemma select_gaps_Nil [simp]: "select_gaps [] = []"
  by (simp add: select_gaps_def)

lemma post_fix_gaps_empty:
  assumes "select_gaps (elements gapIds) = []"
  shows "post_fix_gaps pf cfg authHeader gapIds w =
           (Response (if requireAdmin cfg authHeader = Unauthorized then 401 else 400)
              (if requireAdmin cfg authHeader = Unauthorized then ErrorBody ''Unauthorized''
               else if falsy gapIds \<or> \<not> isArray gapIds \<or> elements gapIds = []
               then ErrorBody ''gapIds array required''
               else ErrorBody ''No valid gaps found for provided IDs''), w)"
  using assms by (auto simp: post_fix_gaps_def split: guard.splits)

lemma post_fix_gaps_known:
  assumes "select_gaps ids \<noteq> []"
  shows "post_fix_gaps pf cfg authHeader (Some (JArray ids)) w =
         post_fix_gaps pf cfg authHeader (Some (JArray (filter known_id ids))) w"
proof -
  have eq: "select_gaps (filter known_id ids) = select_gaps ids"
    by (rule select_gaps_known [symmetric])
  with assms have "filter known_id ids \<noteq> []" by auto
  moreover from assms have "ids \<noteq> []" by auto
  ultimately show ?thesis
    by (cases "requireAdmin cfg authHeader") (simp_all add: post_fix_gaps_def eq)
qed

lemma static_gap_ids:
  "map id_gap PREDETERMINED_GAPS = [''gap_001'', ''gap_002'', ''gap_003'', ''gap_004'', ''gap_005'']"
  by (simp add: PREDETERMINED_GAPS_def)

lemma known_id_iff:
  "known_id x \<longleftrightarrow>
     x \<in> {JString ''gap_001'', JString ''gap_002'', JString ''gap_003'', JString ''gap_004'',
          JString ''gap_005''}"
proof -
  have "map (\<lambda>g. JString (id_gap g)) PREDETERMINED_GAPS = map JString (map id_gap PREDETERMINED_GAPS)"
    by (simp add: comp_def)
  then show ?thesis unfolding known_id_def static_gap_ids by auto
qed

subsection \<open>Files that cannot be fetched\<close>









subsection \<open>The commits of a reset\<close>

lemma committed_extend:
  assumes "committed pf cs1 cs2 owner repo path t br" and "length cs0 \<le> length cs1"
  shows "committed pf cs0 (cs2 @ ext) owner repo path t br"
proof -
  from assms(1) obtain pre post message sha where
    "cs2 = pre @ [CreateOrUpdateFileContents owner repo path message t sha br] @ post"
    "length cs1 \<le> length pre"
    "createOrUpdateFileContents_reply pf
       (pre @ [CreateOrUpdateFileContents owner repo path message t sha br]) = Inr ()"
    unfolding committed_def by blast
  then have "cs2 @ ext = pre @ [CreateOrUpdateFileContents owner repo path message t sha br]
        @ (post @ ext)"
    and "length cs0 \<le> length pre" using assms(2) by simp_all
  with \<open>createOrUpdateFileContents_reply pf
       (pre @ [CreateOrUpdateFileContents owner repo path message t sha br]) = Inr ()\<close>
  show ?thesis unfolding committed_def by blast
qed

lemma commitFile_committed:
  assumes "commitFile pf owner repo path t message br w = (Inr u, w')"
  shows "committed pf (calls w) (calls w') owner repo path t br \<and>
         (\<exists>ext. calls w' = calls w @ ext)"
proof -
  from commitFile_calls [OF assms] obtain sha where
    cs: "calls w' = calls w @ [GetContent owner repo path br,
           CreateOrUpdateFileContents owner repo path message t sha br]"
    and ok: "Inr u = createOrUpdateFileContents_reply pf (calls w')" by blast
  have "calls w' = (calls w @ [GetContent owner repo path br])
      @ [CreateOrUpdateFileContents owner repo path message t sha br] @ []"
    using cs by simp
  moreover have "createOrUpdateFileContents_reply pf
      ((calls w @ [GetContent owner repo path br])
        @ [CreateOrUpdateFileContents owner repo path message t sha br]) = Inr ()"
    using ok cs by simp
  moreover have "length (calls w) \<le> length (calls w @ [GetContent owner repo path br])"
    by simp
  ultimately have "committed pf (calls w) (calls w') owner repo path t br"
    unfolding committed_def by blast
  with cs show ?thesis by simp
qed

lemma reset_docs_committed:
  "reset_docs pf cfg docs w = (Inr u, w') \<Longrightarrow>
     (\<exists>ext. calls w' = calls w @ ext) \<and>
     (\<forall>(path, t) \<in> set docs.
        committed pf (calls w) (calls w') (DOCS_REPO_OWNER cfg) (DOCS_REPO cfg) path t ''main'')"
proof (induction docs arbitrary: w)
  case Nil
  then show ?case by simp
next
  case (Cons d docs)
  obtain path t where d: "d = (path, t)" by (cases d)
  obtain x w1 where first: "commitFile pf (DOCS_REPO_OWNER cfg) (DOCS_REPO cfg) path t
      ''chore: reset to initial state'' ''main'' w = (x, w1)"
    by (cases "commitFile pf (DOCS_REPO_OWNER cfg) (DOCS_REPO cfg) path t
      ''chore: reset to initial state'' ''main'' w")
  with Cons.prems d obtain u1 where x: "x = Inr u1" and rest: "reset_docs pf cfg docs w1 = (Inr u, w')"
    by (cases x) auto
  from commitFile_committed [OF first [unfolded x]] obtain ext1 where
    c1: "committed pf (calls w) (calls w1) (DOCS_REPO_OWNER cfg) (DOCS_REPO cfg) path t ''main''"
    and e1: "calls w1 = calls w @ ext1" by blast
  from Cons.IH [OF rest] obtain ext2 where
    e2: "calls w' = calls w1 @ ext2"
    and c2: "\<forall>(path, t) \<in> set docs.
        committed pf (calls w1) (calls w') (DOCS_REPO_OWNER cfg) (DOCS_REPO cfg) path t ''main''"
    by blast
  have "committed pf (calls w) (calls w') (DOCS_REPO_OWNER cfg) (DOCS_REPO cfg) path t ''main''"
    using committed_extend [OF c1, of "calls w" ext2] e2 by simp
  moreover have "\<forall>(path, t) \<in> set docs.
        committed pf (calls w) (calls w') (DOCS_REPO_OWNER cfg) (DOCS_REPO cfg) path t ''main''"
  proof (clarify)
    fix p' t' assume "(p', t') \<in> set docs"
    with c2 have "committed pf (calls w1) (calls w') (DOCS_REPO_OWNER cfg) (DOCS_REPO cfg) p' t' ''main''"
      by blast
    from committed_extend [OF this, of "calls w" "[]"] e1
    show "committed pf (calls w) (calls w') (DOCS_REPO_OWNER cfg) (DOCS_REPO cfg) p' t' ''main''"
      by simp
  qed
  moreover have "calls w' = calls w @ (ext1 @ ext2)" using e1 e2 by simp
  ultimately show ?case using d by auto
qed

lemma close_pulls_calls:
  "close_pulls pf cfg prs w = (x, w') \<Longrightarrow> \<exists>ext. calls w' = calls w @ ext"
proof (induction prs arbitrary: w)
  case Nil
  then show ?case by simp
next
  case (Cons pr prs)
  then show ?case
    by (fastforce simp: api_defs split: prod.splits sum.splits)
qed


lemma post_reset_200:
  assumes "status_code (fst (post_reset pf cfg authHeader w)) = 200"
  shows "\<exists>prs w1 w2 w3 w4 u1 u2 u3.
     pulls_list pf (DOCS_REPO_OWNER cfg) (DOCS_REPO cfg) ''open'' (broadcast pf RESET_STARTED w)
       = (Inr prs, w1) \<and>
     close_pulls pf cfg prs w1 = (Inr u1, w2) \<and>
     reset_docs pf cfg INITIAL_DOCS w2 = (Inr u2, w3) \<and>
     commitFile pf (PRODUCT_REPO_OWNER cfg) (PRODUCT_REPO cfg) ''src/routes/users.ts''
       DEMO_CODE_BEFORE ''chore: reset to initial state'' ''main'' w3 = (Inr u3, w4) \<and>
     calls (snd (post_reset pf cfg authHeader w)) = calls w4"
  using assms
  by (auto simp: post_reset_def split: guard.splits prod.splits sum.splits)

section \<open>Review mode with something to update\<close>

text \<open>
  When the platform refuses a call the promise is rejected, and the store and the
  counter are as before: no review was created. The handler never returns \<^verbatim>\<open>null\<close> when
  a changed file has an entry in the table.
\<close>

lemma handleMediumAccess_rejected:
  assumes "fst (handleMediumAccess pf cfg changedFiles w) = Inl e"
  shows "pendingReviews (snd (handleMediumAccess pf cfg changedFiles w)) = pendingReviews w"
    and "reviewIdCounter (snd (handleMediumAccess pf cfg changedFiles w)) = reviewIdCounter w"
  using handleMediumAccess_cases [of pf cfg changedFiles w
      "fst (handleMediumAccess pf cfg changedFiles w)"
      "snd (handleMediumAccess pf cfg changedFiles w)"] assms
  by (simp_all add: prod_eq_iff)

lemma handleMediumAccess_not_null:
  assumes "\<exists>f \<in> set changedFiles. map_of UPDATE_MAPPINGS f \<noteq> None"
  shows "fst (handleMediumAccess pf cfg changedFiles w) \<noteq> Inr None"
proof -
  from assms have "''src/routes/users.ts'' \<in> set changedFiles"
    by (auto simp: map_of_UPDATE_MAPPINGS split: if_splits)
  then have "collect_updates UPDATE_MAPPINGS INITIAL_DOCS changedFiles [] \<noteq> []"
    by (simp add: collect_updates_users users_updates_def)
  then show ?thesis
    by (auto simp: handleMediumAccess_def api_defs read_clock_def split_def split: sum.splits)
qed

text \<open>
  Claim C1. When some changed file has an entry in \<^verbatim>\<open>UPDATE_MAPPINGS\<close> and the platform
  accepts the calls, \<^verbatim>\<open>handleMediumAccess\<close> returns a review and stores it under the
  counter's value, the one key the store gains. The review's \<^verbatim>\<open>files\<close> have one entry for
  each documentation path that the table maps some changed file to and no other, its
  status is \<^verbatim>\<open>pending\<close> and its pull-request number is set. A batch with
  \<^verbatim>\<open>src/routes/users.ts\<close> gives the entries for \<^verbatim>\<open>docs/getting-started.md\<close> and
  \<^verbatim>\<open>docs/how-to-guide.md\<close>, from the initial text to the updated text.
\<close>

theorem handleMediumAccess_creates_review:
  assumes mapped: "\<exists>f \<in> set changedFiles. map_of UPDATE_MAPPINGS f \<noteq> None"
    and ok: "platform_succeeds pf"
  shows "\<exists>review w'.
     handleMediumAccess pf cfg changedFiles w = (Inr (Some review), w') \<and>
     pendingReviews w' = AList.update (reviewIdCounter w) review (pendingReviews w) \<and>
     id_review review = reviewIdCounter w \<and>
     (ids_below_counter w \<longrightarrow> created_ids w w' = [id_review review]) \<and>
     distinct (map fst (files review)) \<and>
     fst ` set (files review) = mapped_docs changedFiles \<and>
     status review = pending \<and>
     prNumber review \<noteq> None \<and>
     (''src/routes/users.ts'' \<in> set changedFiles \<longrightarrow> files review = users_updates)"
proof -
  let ?updates = "collect_updates UPDATE_MAPPINGS INITIAL_DOCS changedFiles []"
  from mapped have users: "''src/routes/users.ts'' \<in> set changedFiles"
    by (auto simp: map_of_UPDATE_MAPPINGS split: if_splits)
  then have upd: "?updates = users_updates" by (simp add: collect_updates_users)
  then have "?updates \<noteq> []" by (simp add: users_updates_def)
  from handleMediumAccess_ok[OF ok this] obtain review where
    r: "fst (handleMediumAccess pf cfg changedFiles w) = Inr (Some review)" by blast
  define w' where "w' = snd (handleMediumAccess pf cfg changedFiles w)"
  have run: "handleMediumAccess pf cfg changedFiles w = (Inr (Some review), w')"
    using r by (simp add: w'_def prod_eq_iff)
  from handleMediumAccess_cases[OF run] have
    store: "pendingReviews w' = AList.update (reviewIdCounter w) review (pendingReviews w)"
    and rid: "id_review review = reviewIdCounter w"
    and fs: "files review = ?updates"
    and st: "status review = pending" and pr: "prNumber review \<noteq> None"
    by simp_all
  have "ids_below_counter w \<longrightarrow> created_ids w w' = [id_review review]"
  proof
    assume "ids_below_counter w"
    then have "reviewIdCounter w \<notin> fst ` set (pendingReviews w)"
      by (auto simp: ids_below_counter_def)
    from created_ids_update[OF this store] show "created_ids w w' = [id_review review]"
      by (simp add: rid)
  qed
  moreover have "distinct (map fst (files review))"
    unfolding fs by (rule collect_updates_distinct) simp
  moreover have "fst ` set (files review) = mapped_docs changedFiles"
    unfolding fs by (simp add: collect_updates_keys mapped_docs_def)
  ultimately show ?thesis using run store rid st pr fs upd
    by (intro exI[of _ review] exI[of _ w']) simp
qed

theorem handleMediumAccess_creates_review_witness:
  "\<exists>review w'.
     handleMediumAccess demo_platform (load_config Map.empty) [''src/routes/users.ts'']
       (initial_server Map.empty) = (Inr (Some review), w') \<and>
     map fst (pendingReviews w') = [1] \<and>
     id_review review = 1 \<and>
     map fst (files review) = [''docs/getting-started.md'', ''docs/how-to-guide.md''] \<and>
     status review = pending \<and>
     prNumber review \<noteq> None"
  using handleMediumAccess_creates_review [of "[''src/routes/users.ts'']" demo_platform
      "load_config Map.empty" "initial_server Map.empty"] demo_platform_succeeds
  by (auto simp: map_of_UPDATE_MAPPINGS initial_server_def users_updates_def)

section \<open>Review mode without anything to update\<close>

lemma collect_updates_unmapped:
  "\<forall>f \<in> set changedFiles. map_of table f = None \<Longrightarrow>
     collect_updates table initial changedFiles updates = updates"
  by (induction changedFiles arbitrary: updates) auto

text \<open>
  Claim C2. When no changed file has an entry in \<^verbatim>\<open>UPDATE_MAPPINGS\<close> (the empty list
  included), \<^verbatim>\<open>handleMediumAccess\<close> returns \<^verbatim>\<open>null\<close> without an error, broadcasts
  \<^verbatim>\<open>ANALYZING_CHANGES\<close> and then \<^verbatim>\<open>NO_UPDATES_NEEDED\<close>, stores no review and calls the
  platform not once.
\<close>

theorem handleMediumAccess_no_updates:
  assumes "\<forall>f \<in> set changedFiles. map_of UPDATE_MAPPINGS f = None"
  shows "fst (handleMediumAccess pf cfg changedFiles w) = Inr None \<and>
         pendingReviews (snd (handleMediumAccess pf cfg changedFiles w)) = pendingReviews w \<and>
         reviewIdCounter (snd (handleMediumAccess pf cfg changedFiles w)) = reviewIdCounter w \<and>
         calls (snd (handleMediumAccess pf cfg changedFiles w)) = calls w \<and>
         map fst (broadcasts (snd (handleMediumAccess pf cfg changedFiles w))) =
           map fst (broadcasts w) @ [ANALYZING_CHANGES changedFiles, NO_UPDATES_NEEDED]"
  using assms by (simp add: handleMediumAccess_def collect_updates_unmapped)

theorem handleMediumAccess_no_updates_witness:
  "fst (handleMediumAccess demo_platform (load_config Map.empty)
          [''README.md'', ''src/index.ts''] (initial_server Map.empty)) = Inr None \<and>
   fst (handleMediumAccess demo_platform (load_config Map.empty) []
          (initial_server Map.empty)) = Inr None \<and>
   calls (snd (handleMediumAccess demo_platform (load_config Map.empty)
          [''README.md'', ''src/index.ts''] (initial_server Map.empty))) = []"
  using handleMediumAccess_no_updates [of "[''README.md'', ''src/index.ts'']" demo_platform
          "load_config Map.empty" "initial_server Map.empty"]
    handleMediumAccess_no_updates [of "[]" demo_platform "load_config Map.empty"
          "initial_server Map.empty"]
  by (simp add: UPDATE_MAPPINGS_def initial_server_def)

section \<open>The ids of the reviews\<close>




section \<open>A fix-gaps request without a valid gap\<close>

text \<open>
  Claim C4. The batch of a fix-gaps request is made of the gaps of the static list whose
  id is in \<^verbatim>\<open>gapIds\<close>; an id that is not in the list adds nothing, and a request with such
  ids is answered like the request without them. When the batch is empty (\<^verbatim>\<open>gapIds\<close> is
  missing, is no array, is empty, or holds only unknown ids) the answer is a client error
  (400, or 401 from the admin guard) and the server's state is returned as it was: no
  broadcast was made and no call of the platform was issued, so no branch was created.
\<close>

theorem fix_gaps_rejects_empty_batch:
  "(select_gaps (elements gapIds) = [] \<longrightarrow>
      snd (post_fix_gaps pf cfg authHeader gapIds w) = w \<and>
      status_code (fst (post_fix_gaps pf cfg authHeader gapIds w)) =
        (if requireAdmin cfg authHeader = Unauthorized then 401 else 400)) \<and>
   select_gaps (elements None) = [] \<and>
   select_gaps (elements (Some (JArray []))) = [] \<and>
   ((\<forall>x \<in> set ids. \<not> known_id x) \<longrightarrow> select_gaps (elements (Some (JArray ids))) = []) \<and>
   set (select_gaps ids) = {g \<in> set PREDETERMINED_GAPS. JString (id_gap g) \<in> set ids} \<and>
   select_gaps ids = select_gaps (filter known_id ids) \<and>
   (select_gaps ids \<noteq> [] \<longrightarrow>
      post_fix_gaps pf cfg authHeader (Some (JArray ids)) w =
      post_fix_gaps pf cfg authHeader (Some (JArray (filter known_id ids))) w)"
proof (intro conjI impI)
  assume "select_gaps (elements gapIds) = []"
  then show "snd (post_fix_gaps pf cfg authHeader gapIds w) = w"
    by (simp add: post_fix_gaps_empty)
next
  assume "select_gaps (elements gapIds) = []"
  then show "status_code (fst (post_fix_gaps pf cfg authHeader gapIds w)) =
        (if requireAdmin cfg authHeader = Unauthorized then 401 else 400)"
    by (simp add: post_fix_gaps_empty)
next
  assume "\<forall>x \<in> set ids. \<not> known_id x"
  then show "select_gaps (elements (Some (JArray ids))) = []"
    by (simp add: select_gaps_unknown)
next
  show "set (select_gaps ids) = {g \<in> set PREDETERMINED_GAPS. JString (id_gap g) \<in> set ids}"
    by (auto simp: select_gaps_def)
next
  show "select_gaps ids = select_gaps (filter known_id ids)" by (rule select_gaps_known)
next
  assume "select_gaps ids \<noteq> []"
  then show "post_fix_gaps pf cfg authHeader (Some (JArray ids)) w =
      post_fix_gaps pf cfg authHeader (Some (JArray (filter known_id ids))) w"
    by (rule post_fix_gaps_known)
qed simp_all

theorem fix_gaps_rejects_empty_batch_witness:
  "post_fix_gaps demo_platform (load_config Map.empty) None
      (Some (JArray [JString ''gap_999'', JNumber 3])) (initial_server Map.empty)
     = (Response 400 (ErrorBody ''No valid gaps found for provided IDs''), initial_server Map.empty) \<and>
   snd (post_fix_gaps demo_platform (load_config Map.empty) None None (initial_server Map.empty))
     = initial_server Map.empty \<and>
   status_code (fst (post_fix_gaps demo_platform (load_config Map.empty) None (Some (JArray []))
      (initial_server Map.empty))) = 400 \<and>
   post_fix_gaps demo_platform (load_config Map.empty) None
      (Some (JArray [JString ''gap_999'', JString ''gap_001''])) (initial_server Map.empty)
     = post_fix_gaps demo_platform (load_config Map.empty) None
      (Some (JArray [JString ''gap_001''])) (initial_server Map.empty)"
proof -
  let ?cfg = "load_config Map.empty"
  let ?w0 = "initial_server Map.empty"
  have unknown: "\<forall>x \<in> set [JString ''gap_999'', JNumber 3]. \<not> known_id x"
    by (simp add: known_id_iff)
  have guard: "requireAdmin ?cfg None = Next" by (rule requireAdmin_default)
  note inst = fix_gaps_rejects_empty_batch [where pf = demo_platform and cfg = ?cfg
      and authHeader = None and w = ?w0]
  from inst [where gapIds = "Some (JArray [JString ''gap_999'', JNumber 3])"
      and ids = "[JString ''gap_999'', JNumber 3]"] unknown guard
  have a: "snd (post_fix_gaps demo_platform ?cfg None
        (Some (JArray [JString ''gap_999'', JNumber 3])) ?w0) = ?w0"
    and a': "status_code (fst (post_fix_gaps demo_platform ?cfg None
        (Some (JArray [JString ''gap_999'', JNumber 3])) ?w0)) = 400"
    by simp_all
  have sel: "select_gaps [JString ''gap_999'', JNumber 3] = []"
    using unknown by (rule select_gaps_unknown)
  have a2: "post_fix_gaps demo_platform ?cfg None
      (Some (JArray [JString ''gap_999'', JNumber 3])) ?w0
     = (Response 400 (ErrorBody ''No valid gaps found for provided IDs''), ?w0)"
    using a a' sel guard by (simp add: post_fix_gaps_def)
  from inst [where gapIds = None] guard
  have b: "snd (post_fix_gaps demo_platform ?cfg None None ?w0) = ?w0" by simp
  from inst [where gapIds = "Some (JArray [])"] guard
  have c: "status_code (fst (post_fix_gaps demo_platform ?cfg None (Some (JArray [])) ?w0)) = 400"
    by simp
  have ne: "select_gaps [JString ''gap_999'', JString ''gap_001''] \<noteq> []"
    by (simp add: select_gaps_def PREDETERMINED_GAPS_def)
  from inst [where ids = "[JString ''gap_999'', JString ''gap_001'']"] ne
  have d: "post_fix_gaps demo_platform ?cfg None
      (Some (JArray [JString ''gap_999'', JString ''gap_001''])) ?w0
     = post_fix_gaps demo_platform ?cfg None (Some (JArray [JString ''gap_001''])) ?w0"
    by (simp add: known_id_iff)
  show ?thesis using a2 b c d by simp
qed

section \<open>A fix-gaps request with a file that cannot be fetched\<close>




section \<open>Approving a review that has no pull request\<close>

text \<open>
  Claim C6. For a review of the store without a pull-request number, the approve route
  answers with a client error (400, or 401 when the admin guard rejects the request) and
  returns the server's state as it was: the review keeps its status, the store is the
  same, and neither a merge nor a branch deletion is issued.
\<close>

theorem approve_without_pull_request:
  assumes "map_of (pendingReviews w) k = Some review" and "prNumber review = None"
  shows "snd (post_reviews_approve pf cfg authHeader (Some k) w) = w \<and>
         status_code (fst (post_reviews_approve pf cfg authHeader (Some k) w)) =
           (if requireAdmin cfg authHeader = Unauthorized then 401 else 400)"
  using assms by (simp add: post_reviews_approve_def split: guard.splits)

theorem approve_without_pull_request_witness:
  "snd (post_reviews_approve demo_platform (load_config Map.empty) None (Some 1)
          ((initial_server Map.empty)\<lparr>pendingReviews := [(1, orphan_review)],
                                      reviewIdCounter := 2\<rparr>)) =
     (initial_server Map.empty)\<lparr>pendingReviews := [(1, orphan_review)], reviewIdCounter := 2\<rparr> \<and>
   status_code (fst (post_reviews_approve demo_platform (load_config Map.empty) None (Some 1)
          ((initial_server Map.empty)\<lparr>pendingReviews := [(1, orphan_review)],
                                      reviewIdCounter := 2\<rparr>))) = 400"
  using approve_without_pull_request [of
          "(initial_server Map.empty)\<lparr>pendingReviews := [(1, orphan_review)],
                                     reviewIdCounter := 2\<rparr>"
          1 orphan_review demo_platform "load_config Map.empty" None]
  by (simp add: orphan_review_def requireAdmin_def load_config_def env_or_def)

section \<open>Applying a gap's fix\<close>

text \<open>
  \<^verbatim>\<open>String.prototype.replace\<close> reads dollar patterns in the replacement text even when the
  pattern is a string. At a gap whose \<^verbatim>\<open>after\<close> text is \<^verbatim>\<open>$$5\<close> the fix therefore does not
  put the \<^verbatim>\<open>after\<close> text in the place of the \<^verbatim>\<open>before\<close> text.
\<close>

theorem applyGapFix_dollar_counterexample:
  "applyGapFix price_gap ''price: X'' = ''price: $5'' \<and>
   replace_first_literal ''price: X'' (before (suggested_fix price_gap))
     (after (suggested_fix price_gap)) = ''price: $$5''"
  by (simp add: applyGapFix_def replace_def replace_first_literal_def price_gap_def)

text \<open>
  Claim C7, amended. For every gap whose \<^verbatim>\<open>after\<close> text holds none of the patterns \<^verbatim>\<open>$$\<close>,
  \<^verbatim>\<open>$&\<close>, \<^verbatim>\<open>$`\<close> and \<^verbatim>\<open>$'\<close>, and every content: when the \<^verbatim>\<open>before\<close> text occurs in the content,
  the fix replaces its first occurrence by the \<^verbatim>\<open>after\<close> text. For every gap whatsoever:
  when the \<^verbatim>\<open>before\<close> text does not occur, the content is returned as it is. No gap of
  the static list holds such a pattern (they hold no dollar sign at all).
\<close>

theorem applyGapFix_replaces_first:
  "(\<not> dollar_pattern (after (suggested_fix gap)) \<longrightarrow>
      (\<forall>pre post.
         currentContent = pre @ before (suggested_fix gap) @ post \<and>
         (\<forall>pre' post'. currentContent = pre' @ before (suggested_fix gap) @ post'
            \<longrightarrow> length pre \<le> length pre') \<longrightarrow>
         applyGapFix gap currentContent = pre @ after (suggested_fix gap) @ post)) \<and>
   ((\<nexists>pre post. currentContent = pre @ before (suggested_fix gap) @ post) \<longrightarrow>
      applyGapFix gap currentContent = currentContent) \<and>
   (\<forall>g \<in> set PREDETERMINED_GAPS. \<not> dollar_pattern (after (suggested_fix g)))"
proof (intro conjI impI allI)
  fix pre post
  assume "\<not> dollar_pattern (after (suggested_fix gap))"
    and "currentContent = pre @ before (suggested_fix gap) @ post \<and>
         (\<forall>pre' post'. currentContent = pre' @ before (suggested_fix gap) @ post'
            \<longrightarrow> length pre \<le> length pre')"
  then show "applyGapFix gap currentContent = pre @ after (suggested_fix gap) @ post"
    unfolding applyGapFix_def by (intro replace_first) blast+
next
  assume "\<nexists>pre post. currentContent = pre @ before (suggested_fix gap) @ post"
  then show "applyGapFix gap currentContent = currentContent"
    unfolding applyGapFix_def by (rule replace_absent)
next
  show "\<forall>g \<in> set PREDETERMINED_GAPS. \<not> dollar_pattern (after (suggested_fix g))"
    using static_gaps_no_dollar no_dollar_no_pattern by blast
qed

theorem applyGapFix_replaces_first_witness:
  "applyGapFix (hd PREDETERMINED_GAPS) (''# API\<newline>'' @ gap_001_before @ ''\<newline>GET /users'') =
     ''# API\<newline>'' @ gap_001_after @ ''\<newline>GET /users'' \<and>
   applyGapFix (hd PREDETERMINED_GAPS) ''# API'' = ''# API''"
proof -
  let ?g = "hd PREDETERMINED_GAPS"
  have g: "before (suggested_fix ?g) = gap_001_before" "after (suggested_fix ?g) = gap_001_after"
    by (simp_all add: PREDETERMINED_GAPS_def)
  have nd: "\<not> dollar_pattern (after (suggested_fix ?g))"
    by (rule no_dollar_no_pattern) (simp add: g gap_001_after_def)
  have len: "length gap_001_before = 171"
    by (simp add: gap_001_before_def)
  have first: "\<forall>pre' post'. ''# API\<newline>'' @ gap_001_before @ ''\<newline>GET /users''
        = pre' @ before (suggested_fix ?g) @ post' \<longrightarrow> length ''# API\<newline>'' \<le> length pre'"
  proof (intro allI impI)
    fix pre' post'
    assume eq: "''# API\<newline>'' @ gap_001_before @ ''\<newline>GET /users''
        = pre' @ before (suggested_fix ?g) @ post'"
    show "length ''# API\<newline>'' \<le> length pre'"
    proof (rule ccontr)
      assume "\<not> length ''# API\<newline>'' \<le> length pre'"
      then have short: "length pre' < 6" by simp
      from eq have "take 2 (drop (length pre') (''# API\<newline>'' @ gap_001_before @ ''\<newline>GET /users''))
          = take 2 (gap_001_before @ post')"
        by (simp add: g)
      moreover have "take 2 (gap_001_before @ post') = ''##''"
        by (simp add: gap_001_before_def)
      moreover have "\<forall>n < 6. take 2 (drop n (''# API\<newline>'' @ gap_001_before @ ''\<newline>GET /users'')) \<noteq> ''##''"
        by (simp add: gap_001_before_def less_Suc_eq numeral_eq_Suc)
      ultimately show False using short by metis
    qed
  qed
  have absent: "\<nexists>pre post. ''# API'' = pre @ before (suggested_fix ?g) @ post"
  proof
    assume "\<exists>pre post. ''# API'' = pre @ before (suggested_fix ?g) @ post"
    then obtain pre post where "''# API'' = pre @ gap_001_before @ post"
      by (auto simp: g)
    then have "length ''# API'' = length pre + length gap_001_before + length post"
      by (metis length_append add.assoc)
    then show False by (simp add: len)
  qed
  have eq0: "''# API\<newline>'' @ gap_001_before @ ''\<newline>GET /users''
      = ''# API\<newline>'' @ before (suggested_fix ?g) @ ''\<newline>GET /users''"
    by (simp add: g)
  have "applyGapFix ?g (''# API\<newline>'' @ gap_001_before @ ''\<newline>GET /users'')
      = ''# API\<newline>'' @ after (suggested_fix ?g) @ ''\<newline>GET /users''"
    by (rule applyGapFix_replaces_first [THEN conjunct1, rule_format, OF nd conjI [OF eq0 first]])
  moreover from applyGapFix_replaces_first [of ?g "''# API''"] absent
  have "applyGapFix ?g ''# API'' = ''# API''" by blast
  ultimately show ?thesis by (simp add: g)
qed

section \<open>Resetting the demo\<close>

text \<open>
  Claim C8. After a reset that answered 200 the review store is empty, so that
  \<^verbatim>\<open>GET /reviews\<close> lists nothing; and in the course of the reset each document of
  \<^verbatim>\<open>INITIAL_DOCS\<close> was committed with its initial text to the main branch of the
  documentation repository, and \<^verbatim>\<open>src/routes/users.ts\<close> with \<^verbatim>\<open>DEMO_CODE_BEFORE\<close> to the main
  branch of the product repository, each commit accepted by the platform.
\<close>

theorem reset_restores_initial_state:
  assumes "status_code (fst (post_reset pf cfg authHeader w)) = 200"
  shows "pendingReviews (snd (post_reset pf cfg authHeader w)) = [] \<and>
         get_reviews (snd (post_reset pf cfg authHeader w)) = Response 200 (ReviewsBody []) \<and>
         (\<forall>(path, t) \<in> set INITIAL_DOCS.
            committed pf (calls w) (calls (snd (post_reset pf cfg authHeader w)))
              (DOCS_REPO_OWNER cfg) (DOCS_REPO cfg) path t ''main'') \<and>
         committed pf (calls w) (calls (snd (post_reset pf cfg authHeader w)))
           (PRODUCT_REPO_OWNER cfg) (PRODUCT_REPO cfg) ''src/routes/users.ts''
           DEMO_CODE_BEFORE ''main''"
proof -
  let ?w' = "snd (post_reset pf cfg authHeader w)"
  from post_reset_store [of pf cfg authHeader w] assms
  have empty: "pendingReviews ?w' = []" by auto
  then have listing: "get_reviews ?w' = Response 200 (ReviewsBody [])"
    by (simp add: get_reviews_def)
  from post_reset_200 [OF assms] obtain prs w1 w2 w3 w4 u1 u2 u3 where
    l: "pulls_list pf (DOCS_REPO_OWNER cfg) (DOCS_REPO cfg) ''open''
          (broadcast pf RESET_STARTED w) = (Inr prs, w1)"
    and c: "close_pulls pf cfg prs w1 = (Inr u1, w2)"
    and d: "reset_docs pf cfg INITIAL_DOCS w2 = (Inr u2, w3)"
    and p: "commitFile pf (PRODUCT_REPO_OWNER cfg) (PRODUCT_REPO cfg) ''src/routes/users.ts''
          DEMO_CODE_BEFORE ''chore: reset to initial state'' ''main'' w3 = (Inr u3, w4)"
    and fin: "calls ?w' = calls w4"
    by blast
  from l have e1: "\<exists>ext. calls w1 = calls w @ ext" by (auto simp: api_defs)
  from close_pulls_calls [OF c] have e2: "\<exists>ext. calls w2 = calls w1 @ ext" .
  from reset_docs_committed [OF d] have e3: "\<exists>ext. calls w3 = calls w2 @ ext"
    and docs: "\<forall>(path, t) \<in> set INITIAL_DOCS.
        committed pf (calls w2) (calls w3) (DOCS_REPO_OWNER cfg) (DOCS_REPO cfg) path t ''main''"
    by simp_all
  from commitFile_committed [OF p] have
    code: "committed pf (calls w3) (calls w4) (PRODUCT_REPO_OWNER cfg) (PRODUCT_REPO cfg)
        ''src/routes/users.ts'' DEMO_CODE_BEFORE ''main''"
    and e4: "\<exists>ext. calls w4 = calls w3 @ ext" by simp_all
  from e1 e2 have l2: "length (calls w) \<le> length (calls w2)" by auto
  with e3 have l3: "length (calls w) \<le> length (calls w3)" by auto
  from e4 obtain ext4 where x4: "calls w4 = calls w3 @ ext4" by blast
  have "\<forall>(path, t) \<in> set INITIAL_DOCS.
        committed pf (calls w) (calls ?w') (DOCS_REPO_OWNER cfg) (DOCS_REPO cfg) path t ''main''"
  proof (clarify)
    fix path t assume "(path, t) \<in> set INITIAL_DOCS"
    with docs have "committed pf (calls w2) (calls w3) (DOCS_REPO_OWNER cfg) (DOCS_REPO cfg)
        path t ''main''" by blast
    from committed_extend [OF this l2, of ext4]
    show "committed pf (calls w) (calls ?w') (DOCS_REPO_OWNER cfg) (DOCS_REPO cfg) path t ''main''"
      by (simp add: fin x4)
  qed
  moreover have "committed pf (calls w) (calls ?w') (PRODUCT_REPO_OWNER cfg) (PRODUCT_REPO cfg)
      ''src/routes/users.ts'' DEMO_CODE_BEFORE ''main''"
    using committed_extend [OF code l3, of "[]"] by (simp add: fin)
  ultimately show ?thesis using empty listing by blast
qed

theorem reset_restores_initial_state_witness:
  "get_reviews ((initial_server Map.empty)\<lparr>pendingReviews := [(1, orphan_review)],
       reviewIdCounter := 2\<rparr>) = Response 200 (ReviewsBody [orphan_review]) \<and>
   get_reviews (snd (post_reset demo_platform (load_config Map.empty) None
     ((initial_server Map.empty)\<lparr>pendingReviews := [(1, orphan_review)],
       reviewIdCounter := 2\<rparr>))) = Response 200 (ReviewsBody []) \<and>
   committed demo_platform [] (calls (snd (post_reset demo_platform (load_config Map.empty) None
     ((initial_server Map.empty)\<lparr>pendingReviews := [(1, orphan_review)],
       reviewIdCounter := 2\<rparr>)))) ''haritha1313'' ''oqoqo-demo-docs''
     ''docs/architecture.md'' INITIAL_architecture ''main'' \<and>
   committed demo_platform [] (calls (snd (post_reset demo_platform (load_config Map.empty) None
     ((initial_server Map.empty)\<lparr>pendingReviews := [(1, orphan_review)],
       reviewIdCounter := 2\<rparr>)))) ''haritha1313'' ''oqoqo-demo-product''
     ''src/routes/users.ts'' DEMO_CODE_BEFORE ''main''"
proof -
  let ?w = "(initial_server Map.empty)\<lparr>pendingReviews := [(1, orphan_review)],
       reviewIdCounter := 2\<rparr>"
  have ok: "status_code (fst (post_reset demo_platform (load_config Map.empty) None ?w)) = 200"
    by (simp add: post_reset_ok [OF demo_platform_succeeds requireAdmin_default])
  have before: "get_reviews ?w = Response 200 (ReviewsBody [orphan_review])"
    by (simp add: get_reviews_def orphan_review_def)
  have cs: "calls ?w = []" by (simp add: initial_server_def)
  have cfg: "DOCS_REPO_OWNER (load_config Map.empty) = ''haritha1313''"
    "DOCS_REPO (load_config Map.empty) = ''oqoqo-demo-docs''"
    "PRODUCT_REPO_OWNER (load_config Map.empty) = ''haritha1313''"
    "PRODUCT_REPO (load_config Map.empty) = ''oqoqo-demo-product''"
    by (simp_all add: load_config_def env_or_def)
  have "(''docs/architecture.md'', INITIAL_architecture) \<in> set INITIAL_DOCS"
    by (simp add: INITIAL_DOCS_def)
  with reset_restores_initial_state [OF ok] before cs cfg show ?thesis
    by (simp add: case_prod_beta Ball_def)
qed

section \<open>The admin guard\<close>

text \<open>
  The routes behind the guard answer 401 when the guard rejects, before anything else
  happens, and at no other time.
\<close>

lemma guarded_routes_reject:
  assumes "requireAdmin cfg authHeader = Unauthorized"
  shows "post_reviews_approve pf cfg authHeader rid w = (Response 401 (ErrorBody ''Unauthorized''), w)"
    and "post_reset pf cfg authHeader w = (Response 401 (ErrorBody ''Unauthorized''), w)"
    and "post_fix_gaps pf cfg authHeader gapIds w = (Response 401 (ErrorBody ''Unauthorized''), w)"
  using assms by (simp_all add: post_reviews_approve_def post_reset_def post_fix_gaps_def)

lemma guarded_routes_pass:
  assumes "requireAdmin cfg authHeader = Next"
  shows "status_code (fst (post_reviews_approve pf cfg authHeader rid w)) \<noteq> 401"
    and "status_code (fst (post_reset pf cfg authHeader w)) \<noteq> 401"
    and "status_code (fst (post_fix_gaps pf cfg authHeader gapIds w)) \<noteq> 401"
  using assms
  by (auto simp: post_reviews_approve_def post_reset_def post_fix_gaps_def Let_def split_def
      split: option.splits sum.splits)

text \<open>
  Claim C10. The guard answers 401 exactly when an admin secret is configured (it is not
  the empty string) and the \<^verbatim>\<open>Authorization\<close> header is missing or is not
  \<^verbatim>\<open>Bearer <secret>\<close>. Without a configured secret every request passes, with or without a
  header; and the secret is the empty string when \<^verbatim>\<open>ADMIN_SECRET\<close> is not set.
\<close>

theorem requireAdmin_rejects_iff:
  "(requireAdmin cfg authHeader = Unauthorized) =
     (ADMIN_SECRET cfg \<noteq> [] \<and>
      (authHeader = None \<or> authHeader \<noteq> Some (''Bearer '' @ ADMIN_SECRET cfg)))
   \<and> (ADMIN_SECRET cfg = [] \<longrightarrow> requireAdmin cfg authHeader = Next)
   \<and> ADMIN_SECRET (load_config Map.empty) = []"
  by (auto simp: requireAdmin_def load_config_def env_or_def)

theorem requireAdmin_rejects_iff_witness:
  "requireAdmin (load_config Map.empty) None = Next \<and>
   requireAdmin (load_config Map.empty) (Some ''Bearer anything'') = Next \<and>
   requireAdmin (load_config [''ADMIN_SECRET'' \<mapsto> ''s3cret'']) None = Unauthorized \<and>
   requireAdmin (load_config [''ADMIN_SECRET'' \<mapsto> ''s3cret'']) (Some ''Bearer guess'')
     = Unauthorized \<and>
   requireAdmin (load_config [''ADMIN_SECRET'' \<mapsto> ''s3cret'']) (Some ''Bearer s3cret'') = Next"
  using requireAdmin_rejects_iff [of "load_config Map.empty" None]
    requireAdmin_rejects_iff [of "load_config Map.empty" "Some ''Bearer anything''"]
    requireAdmin_rejects_iff [of "load_config [''ADMIN_SECRET'' \<mapsto> ''s3cret'']" None]
    requireAdmin_rejects_iff [of "load_config [''ADMIN_SECRET'' \<mapsto> ''s3cret'']"
      "Some ''Bearer guess''"]
    requireAdmin_rejects_iff [of "load_config [''ADMIN_SECRET'' \<mapsto> ''s3cret'']"
      "Some ''Bearer s3cret''"]
  by (simp add: load_config_def env_or_def) (simp add: requireAdmin_def)


end
